theory Spec2Isabelle
  imports Complex_Main "HOL-Library.Char_ord" "HOL-Library.List_Lexorder" "HOL-Library.AList"
begin

section \<open>Lock manager (terminal.py, lines 15-72)\<close>

text \<open>
  The lock table is the JSON object of \<^verbatim>\<open>data/resource_locks.json\<close>: a dictionary from
  resource paths to entries with the two keys \<^verbatim>\<open>session_id\<close> and \<^verbatim>\<open>timestamp\<close>, which is
  the only shape \<^verbatim>\<open>_acquire_lock\<close> ever writes. Timestamps are the values of
  \<^verbatim>\<open>time.time()\<close>, modelled as real numbers of seconds.
\<close>

record lock_info =
  session_id :: string
  timestamp :: real

type_synonym lock_table = "string \<rightharpoonup> lock_info"

text \<open>
  The file on disk. \<^verbatim>\<open>_load_locks\<close> answers the empty dictionary for a file that is
  missing or cannot be decoded, so the file is represented by the dictionary that loading
  it yields. \<^verbatim>\<open>_save_locks\<close> swallows an \<^verbatim>\<open>IOError\<close>; \<open>writable\<close> says whether a
  write goes through.
\<close>

record lock_disk =
  lock_file :: lock_table
  writable :: bool

definition load_locks :: "lock_disk \<Rightarrow> lock_table" where
  "load_locks d = lock_file d"

definition save_locks :: "lock_table \<Rightarrow> lock_disk \<Rightarrow> lock_disk" where
  "save_locks locks d = (if writable d then d\<lparr>lock_file := locks\<rparr> else d)"

text \<open>
  The clean-up loop of \<^verbatim>\<open>_acquire_lock\<close>: every entry with
  \<^verbatim>\<open>current_time - timestamp > 300\<close> is deleted from the loaded dictionary.
\<close>

definition purge_expired :: "real \<Rightarrow> lock_table \<Rightarrow> lock_table" where
  "purge_expired current_time locks =
     (\<lambda>resource. case locks resource of
        None \<Rightarrow> None
      | Some li \<Rightarrow> if current_time - timestamp li > 300 then None else Some li)"

text \<open>\<^verbatim>\<open>resource_path in locks and locks[resource_path]['session_id'] != session_id\<close>\<close>

definition held_by_other :: "string \<Rightarrow> string \<Rightarrow> lock_table \<Rightarrow> bool" where
  "held_by_other sid resource_path locks =
     (case locks resource_path of None \<Rightarrow> False | Some li \<Rightarrow> session_id li \<noteq> sid)"

text \<open>\<^verbatim>\<open>resource_path in locks and locks[resource_path]['session_id'] == session_id\<close>\<close>

definition held_by :: "string \<Rightarrow> string \<Rightarrow> lock_table \<Rightarrow> bool" where
  "held_by sid resource_path locks =
     (case locks resource_path of None \<Rightarrow> False | Some li \<Rightarrow> session_id li = sid)"

definition acquire_lock :: "string \<Rightarrow> string \<Rightarrow> real \<Rightarrow> lock_disk \<Rightarrow> bool \<times> lock_disk" where
  "acquire_lock sid resource_path current_time d =
     (let locks = purge_expired current_time (load_locks d) in
      if held_by_other sid resource_path locks then (False, d)
      else (True,
            save_locks
              (locks(resource_path \<mapsto> \<lparr>session_id = sid, timestamp = current_time\<rparr>)) d))"

definition release_lock :: "string \<Rightarrow> string \<Rightarrow> lock_disk \<Rightarrow> lock_disk" where
  "release_lock sid resource_path d =
     (let locks = load_locks d in
      if held_by sid resource_path locks then save_locks (locks(resource_path := None)) d
      else d)"

definition check_lock :: "string \<Rightarrow> string \<Rightarrow> lock_disk \<Rightarrow> string option" where
  "check_lock sid resource_path d =
     (let locks = load_locks d in
      case locks resource_path of
        None \<Rightarrow> None
      | Some li \<Rightarrow> if session_id li \<noteq> sid then Some (session_id li) else None)"

text \<open>A lock table with the single entry of session A on \<^verbatim>\<open>/tmp/x\<close>, taken at time 0.\<close>

definition disk_A :: lock_disk where
  "disk_A = \<lparr>lock_file = [''/tmp/x'' \<mapsto> \<lparr>session_id = ''A'', timestamp = 0\<rparr>],
             writable = True\<rparr>"

text \<open>
  Session A holds a stale lock on \<^verbatim>\<open>/tmp/old\<close> (time 0) and session B a fresh one on
  \<^verbatim>\<open>/tmp/x\<close> (time 1000).
\<close>

definition disk_stale :: lock_disk where
  "disk_stale =
     \<lparr>lock_file = [''/tmp/old'' \<mapsto> \<lparr>session_id = ''A'', timestamp = 0\<rparr>,
                   ''/tmp/x'' \<mapsto> \<lparr>session_id = ''B'', timestamp = 1000\<rparr>],
      writable = True\<rparr>"

section \<open>Python strings and exceptions\<close>

text \<open>
  A Python \<^verbatim>\<open>str\<close> is modelled as a list of characters with code points below 256
  (\<open>of_char c\<close> is the code point). \<open>is_space\<close> is \<^verbatim>\<open>str.isspace\<close> on one character, which
  is also what \<^verbatim>\<open>\s\<close> matches and what \<^verbatim>\<open>str.split()\<close> and \<^verbatim>\<open>str.strip()\<close> cut at.
\<close>

definition is_space :: "char \<Rightarrow> bool" where
  "is_space c =
     (let n = (of_char c :: nat) in
      (9 \<le> n \<and> n \<le> 13) \<or> (28 \<le> n \<and> n \<le> 32) \<or> n = 133 \<or> n = 160)"

definition strip :: "string \<Rightarrow> string" where
  "strip s = rev (dropWhile is_space (rev (dropWhile is_space s)))"

text \<open>\<^verbatim>\<open>str(n)\<close> for a non-negative and for an arbitrary integer.\<close>

definition digit_char :: "nat \<Rightarrow> char" where
  "digit_char d = ''0123456789'' ! d"

fun str_nat :: "nat \<Rightarrow> string" where
  "str_nat n =
     (if n < 10 then [digit_char n] else str_nat (n div 10) @ [digit_char (n mod 10)])"

definition str_int :: "int \<Rightarrow> string" where
  "str_int i = (if i < 0 then CHR ''-'' # str_nat (nat (- i)) else str_nat (nat i))"

text \<open>\<^verbatim>\<open>int(x)\<close> on a float: truncation towards zero.\<close>

definition py_int :: "real \<Rightarrow> int" where
  "py_int x = (if 0 \<le> x then \<lfloor>x\<rfloor> else \<lceil>x\<rceil>)"

text \<open>
  Exceptions are values: the class and the text of \<^verbatim>\<open>str(e)\<close>. \<open>Exception\<close> stands for
  every class below \<^verbatim>\<open>Exception\<close> that no handler of the program names;
  \<^verbatim>\<open>KeyboardInterrupt\<close> and \<^verbatim>\<open>SystemExit\<close> derive from \<^verbatim>\<open>BaseException\<close> only.
  \<^verbatim>\<open>IOError\<close> is \<^verbatim>\<open>OSError\<close>, and \<^verbatim>\<open>FileNotFoundError\<close> is one of its subclasses.
\<close>

datatype exn_class =
    OSError | FileNotFoundError | UnicodeDecodeError | TimeoutExpired | EOFError
  | TypeError | ZeroDivisionError | NoSuchProcess | AccessDenied | Exception
  | KeyboardInterrupt | SystemExit

type_synonym exn = "exn_class \<times> string"

definition is_Exception :: "exn \<Rightarrow> bool" where
  "is_Exception e = (fst e \<noteq> KeyboardInterrupt \<and> fst e \<noteq> SystemExit)"

definition is_OSError :: "exn \<Rightarrow> bool" where
  "is_OSError e = (fst e = OSError \<or> fst e = FileNotFoundError)"

section \<open>History store (history.py, enhanced_history.py)\<close>

text \<open>
  The directory \<^verbatim>\<open>data\<close>. \<open>session_files\<close> are the files \<^verbatim>\<open>data/sessions/<id>.json\<close>,
  keyed by the session id, each with the list of commands that loading it yields (the
  empty list for a file that cannot be decoded). \<open>session_info_file\<close> is the dictionary
  that \<^verbatim>\<open>_load_session_info\<close> reads from \<^verbatim>\<open>data/session_info.json\<close>,
  \<open>current_session_file\<close> the text of \<^verbatim>\<open>data/current_session.txt\<close> and
  \<open>process_session_files\<close> the texts of \<^verbatim>\<open>data/process_<pid>_session.txt\<close>.
  \<open>dir_writable\<close> says whether writes go through; a write that does not raises
  \<^verbatim>\<open>OSError\<close> (\<^verbatim>\<open>IOError\<close>), which the history functions and
  \<^verbatim>\<open>_save_session_info\<close> swallow. A directory lists every file once, so the keys of
  \<open>session_files\<close> are distinct.
\<close>

record session_meta =
  working_directory :: string
  created_at :: real
  last_accessed :: real
  process_id :: "nat option"

record data_dir =
  session_files :: "(string \<times> string list) list"
  session_info_file :: "string \<rightharpoonup> session_meta"
  current_session_file :: "string option"
  process_session_files :: "nat \<rightharpoonup> string"
  dir_writable :: bool

definition load_history :: "string \<Rightarrow> data_dir \<Rightarrow> string list" where
  "load_history sid d = (case map_of (session_files d) sid of None \<Rightarrow> [] | Some h \<Rightarrow> h)"

definition save_history :: "string \<Rightarrow> string list \<Rightarrow> data_dir \<Rightarrow> data_dir" where
  "save_history sid commands d =
     (if dir_writable d then d\<lparr>session_files := AList.update sid commands (session_files d)\<rparr>
      else d)"

text \<open>\<^verbatim>\<open>history.add_command\<close>: the module-level function, which no caller uses.\<close>

definition history_add_command :: "string \<Rightarrow> string \<Rightarrow> data_dir \<Rightarrow> data_dir" where
  "history_add_command sid command d = save_history sid (load_history sid d @ [command]) d"



definition save_session_history :: "string \<Rightarrow> string list \<Rightarrow> data_dir \<Rightarrow> data_dir" where
  "save_session_history sid commands d =
     (if dir_writable d then d\<lparr>session_files := AList.update sid commands (session_files d)\<rparr>
      else d)"



definition dir0 :: data_dir where
  "dir0 = \<lparr>session_files = [], session_info_file = Map.empty, current_session_file = None,
           process_session_files = Map.empty, dir_writable = True\<rparr>"

section \<open>Session manager (session_manager.py)\<close>

text \<open>
  A \<^verbatim>\<open>SessionManager\<close> object in its process: the dictionary \<^verbatim>\<open>self.session_info\<close> it
  loaded and keeps in memory, and the working directory of the process (\<^verbatim>\<open>os.getcwd()\<close>).
  Every path of the session manager is relative (\<^verbatim>\<open>data/sessions\<close>,
  \<^verbatim>\<open>data/current_session.txt\<close>, ...), so the files it reads and writes are those of the
  directory \<^verbatim>\<open>data\<close> under the working directory: \<open>data\<close> is that directory, which
  the constructor makes, and \<open>elsewhere\<close> gives the directory \<^verbatim>\<open>data\<close> under any other
  directory, if there is one.
\<close>

record session_manager =
  session_info :: "string \<rightharpoonup> session_meta"
  data :: data_dir
  cwd :: string
  elsewhere :: "string \<Rightarrow> data_dir option"

definition save_session_info :: "session_manager \<Rightarrow> session_manager" where
  "save_session_info sm =
     (if dir_writable (data sm)
      then sm\<lparr>data := (data sm)\<lparr>session_info_file := session_info sm\<rparr>\<rparr>
      else sm)"

text \<open>
  \<^verbatim>\<open>list_sessions\<close>: the names of the files \<^verbatim>\<open><id>.json\<close> of the sessions directory
  without the extension, sorted.
\<close>

definition list_sessions :: "data_dir \<Rightarrow> string list" where
  "list_sessions d = sort (map fst (session_files d))"

text \<open>
  The id of the session of a process, \<^verbatim>\<open>session_<pid>_<int(time.time())>\<close>, and
  \<^verbatim>\<open>_create_unique_session_for_process\<close>. The readings of the clock within one call
  (\<^verbatim>\<open>created_at\<close>, \<^verbatim>\<open>last_accessed\<close>) are taken to be the one time \<open>now\<close>. The
  writes of the history file and of the binding file are not guarded.
\<close>

definition process_session_id :: "nat \<Rightarrow> real \<Rightarrow> string" where
  "process_session_id pid now = ''session_'' @ str_nat pid @ ''_'' @ str_int (py_int now)"

definition create_unique_session_for_process ::
  "nat \<Rightarrow> real \<Rightarrow> session_manager \<Rightarrow> exn + string \<times> session_manager" where
  "create_unique_session_for_process pid now sm =
     (let sid = process_session_id pid now in
      if \<not> dir_writable (data sm) then Inl (OSError, ''Permission denied'')
      else
        let sm1 = sm\<lparr>data := (data sm)\<lparr>session_files :=
                     AList.update sid [] (session_files (data sm))\<rparr>\<rparr>;
            sm2 = save_session_info (sm1\<lparr>session_info := (session_info sm1)(sid \<mapsto>
                     \<lparr>working_directory = cwd sm1, created_at = now, last_accessed = now,
                      process_id = Some pid\<rparr>)\<rparr>);
            sm3 = sm2\<lparr>data := (data sm2)\<lparr>process_session_files :=
                     (process_session_files (data sm2))(pid \<mapsto> sid)\<rparr>\<rparr>
        in Inr (sid, sm3))"

text \<open>
  \<^verbatim>\<open>get_current_session\<close>, with \<^verbatim>\<open>os.getpid()\<close> as the argument \<open>pid\<close>. The handler
  \<^verbatim>\<open>except Exception\<close> runs the creation a second time.
\<close>

definition get_current_session ::
  "nat \<Rightarrow> real \<Rightarrow> session_manager \<Rightarrow> exn + string \<times> session_manager" where
  "get_current_session pid now sm =
     (case process_session_files (data sm) pid of
        Some text \<Rightarrow> Inr (strip text, sm)
      | None \<Rightarrow>
          (case create_unique_session_for_process pid now sm of
             Inl e \<Rightarrow> if is_Exception e then create_unique_session_for_process pid now sm
                      else Inl e
           | Inr r \<Rightarrow> Inr r))"

definition create_new_session ::
  "real \<Rightarrow> session_manager \<Rightarrow> exn + string \<times> session_manager" where
  "create_new_session now sm =
     (let sessions = list_sessions (data sm);
          sid = ''session_'' @ str_nat (length sessions + 1) in
      if \<not> dir_writable (data sm) then Inl (OSError, ''Permission denied'')
      else
        let sm1 = sm\<lparr>data := (data sm)\<lparr>session_files :=
                     AList.update sid [] (session_files (data sm))\<rparr>\<rparr>;
            sm2 = save_session_info (sm1\<lparr>session_info := (session_info sm1)(sid \<mapsto>
                     \<lparr>working_directory = cwd sm1, created_at = now, last_accessed = now,
                      process_id = None\<rparr>)\<rparr>);
            sm3 = sm2\<lparr>data := (data sm2)\<lparr>current_session_file := Some sid\<rparr>\<rparr>
        in Inr (sid, sm3))"

text \<open>
  \<^verbatim>\<open>get_session_details\<close> for an explicit session id: the copy of the entry with the
  command count and the status of the working directory. \<open>path_exists\<close> is
  \<^verbatim>\<open>os.path.exists\<close>.
\<close>

record session_details =
  details_meta :: session_meta
  command_count :: nat
  working_directory_status :: string

definition get_session_details ::
  "(string \<Rightarrow> bool) \<Rightarrow> string \<Rightarrow> session_manager \<Rightarrow> session_details option" where
  "get_session_details path_exists sid sm =
     (case session_info sm sid of
        None \<Rightarrow> None
      | Some info \<Rightarrow>
          Some (if path_exists (working_directory info)
                then \<lparr>details_meta = info,
                      command_count = length (load_history sid (data sm)),
                      working_directory_status = ''valid''\<rparr>
                else \<lparr>details_meta = info\<lparr>working_directory := cwd sm\<rparr>,
                      command_count = length (load_history sid (data sm)),
                      working_directory_status = ''invalid''\<rparr>))"

text \<open>
  \<^verbatim>\<open>switch_session\<close>. \<open>chdir_ok\<close> says whether \<^verbatim>\<open>os.chdir\<close> to a path succeeds; its
  \<^verbatim>\<open>OSError\<close> is swallowed. The write of \<^verbatim>\<open>data/current_session.txt\<close> comes after the
  change of directory and is not guarded: it goes to the directory \<^verbatim>\<open>data\<close> under the
  new working directory, and raises when there is none.
\<close>

definition switch_session ::
  "(string \<Rightarrow> bool) \<Rightarrow> (string \<Rightarrow> bool) \<Rightarrow> real \<Rightarrow> string \<Rightarrow> session_manager
   \<Rightarrow> exn + bool \<times> session_manager" where
  "switch_session path_exists chdir_ok now sid sm =
     (let sessions = list_sessions (data sm) in
      if sid \<in> set sessions then
        let sm1 = (case session_info sm sid of
                     Some info \<Rightarrow>
                       save_session_info
                         (sm\<lparr>session_info := (session_info sm)(sid \<mapsto>
                                info\<lparr>last_accessed := now\<rparr>)\<rparr>)
                   | None \<Rightarrow> sm);
            moves = (case get_session_details path_exists sid sm1 of
                       Some det \<Rightarrow>
                         working_directory_status det = ''valid''
                         \<and> chdir_ok (working_directory (details_meta det))
                         \<and> working_directory (details_meta det) \<noteq> cwd sm1
                     | None \<Rightarrow> False);
            target = (case get_session_details path_exists sid sm1 of
                        Some det \<Rightarrow> working_directory (details_meta det)
                      | None \<Rightarrow> cwd sm1)
        in if moves
           then (case elsewhere sm1 target of
                   None \<Rightarrow> Inl (FileNotFoundError, ''No such file or directory'')
                 | Some d \<Rightarrow>
                     if dir_writable d
                     then Inr (True,
                            sm1\<lparr>cwd := target,
                                data := d\<lparr>current_session_file := Some sid\<rparr>,
                                elsewhere := (elsewhere sm1)
                                  (cwd sm1 := Some (data sm1), target := None)\<rparr>)
                     else Inl (OSError, ''Permission denied''))
           else if dir_writable (data sm1)
           then Inr (True, sm1\<lparr>data := (data sm1)\<lparr>current_session_file := Some sid\<rparr>\<rparr>)
           else Inl (OSError, ''Permission denied'')
      else Inr (False, sm))"

definition cleanup_process_session :: "nat \<Rightarrow> session_manager \<Rightarrow> session_manager" where
  "cleanup_process_session pid sm =
     (if dir_writable (data sm)
      then sm\<lparr>data := (data sm)\<lparr>process_session_files :=
                 (process_session_files (data sm))(pid := None)\<rparr>\<rparr>
      else sm)"

definition sm0 :: session_manager where
  "sm0 = \<lparr>session_info = Map.empty, data = dir0, cwd = ''/home/user'',
           elsewhere = (\<lambda>directory. None)\<rparr>"

text \<open>\<^verbatim>\<open>str.startswith\<close>.\<close>

definition startswith :: "string \<Rightarrow> string \<Rightarrow> bool" where
  "startswith s p = (take (length p) s = p)"

text \<open>
  Every text that \<^verbatim>\<open>_create_unique_session_for_process\<close> writes to the binding file of
  a process starts with \<^verbatim>\<open>session_<pid>_\<close>. \<open>bindings_wf\<close> says so of the binding files
  of a directory; the session manager writes these files nowhere else.
\<close>

definition process_prefix :: "nat \<Rightarrow> string" where
  "process_prefix pid = ''session_'' @ str_nat pid @ ''_''"

definition bindings_wf :: "data_dir \<Rightarrow> bool" where
  "bindings_wf d =
     (\<forall>pid content. process_session_files d pid = Some content \<longrightarrow>
        startswith content (process_prefix pid))"

text \<open>Reading a decimal numeral back, to show that \<open>str_nat\<close> loses nothing.\<close>

definition digit_val :: "char \<Rightarrow> nat" where
  "digit_val c = of_char c - 48"

definition nat_of_str :: "string \<Rightarrow> nat" where
  "nat_of_str s = foldl (\<lambda>a c. 10 * a + digit_val c) 0 s"

text \<open>Directories used as concrete inputs.\<close>

definition meta1 :: session_meta where
  "meta1 = \<lparr>working_directory = ''/home/user'', created_at = 10, last_accessed = 10,
            process_id = None\<rparr>"

text \<open>One session with a history file and metadata.\<close>

definition sm_one :: session_manager where
  "sm_one = sm0\<lparr>session_info := [''session_1'' \<mapsto> meta1],
               data := dir0\<lparr>session_files := [(''session_1'', [''pwd''])],
                            session_info_file := [''session_1'' \<mapsto> meta1],
                            current_session_file := Some ''session_1''\<rparr>\<rparr>"


text \<open>
  The sessions directory holds \<^verbatim>\<open>session_2.json\<close> only, as after \<^verbatim>\<open>session_1\<close> was
  removed (\<^verbatim>\<open>cleanup_old_sessions\<close>, or \<^verbatim>\<open>rm\<close>).
\<close>

definition sm_gap :: session_manager where
  "sm_gap = sm0\<lparr>session_info := [''session_2'' \<mapsto> meta1],
               data := dir0\<lparr>session_files := [(''session_2'', [''ls''])],
                            session_info_file := [''session_2'' \<mapsto> meta1],
                            current_session_file := Some ''session_2''\<rparr>\<rparr>"

text \<open>
  The session \<^verbatim>\<open>session_1\<close> was last used in \<^verbatim>\<open>/srv\<close>, a directory that exists and
  has no directory \<^verbatim>\<open>data\<close>; the process is in \<^verbatim>\<open>/home/user\<close>.
\<close>

definition sm_away :: session_manager where
  "sm_away = sm_one\<lparr>session_info := [''session_1'' \<mapsto> meta1\<lparr>working_directory := ''/srv''\<rparr>]\<rparr>"

declare str_nat.simps [simp del]

section \<open>Input classifier (unified_processor.py)\<close>

text \<open>
  \<open>is_word\<close> is what \<^verbatim>\<open>\w\<close> matches in a \<^verbatim>\<open>str\<close> pattern (alphanumeric or the
  underscore) and \<open>lower\<close> is \<^verbatim>\<open>str.lower\<close>, both on code points below 256.
\<close>

definition is_word :: "char \<Rightarrow> bool" where
  "is_word c =
     (let n = (of_char c :: nat) in
      (48 \<le> n \<and> n \<le> 57) \<or> (65 \<le> n \<and> n \<le> 90) \<or> n = 95 \<or> (97 \<le> n \<and> n \<le> 122)
      \<or> n = 170 \<or> n = 178 \<or> n = 179 \<or> n = 181 \<or> n = 185 \<or> n = 186
      \<or> (188 \<le> n \<and> n \<le> 190) \<or> (192 \<le> n \<and> n \<le> 214) \<or> (216 \<le> n \<and> n \<le> 246)
      \<or> 248 \<le> n)"

definition lower_char :: "char \<Rightarrow> char" where
  "lower_char c =
     (let n = (of_char c :: nat) in
      if (65 \<le> n \<and> n \<le> 90) \<or> (192 \<le> n \<and> n \<le> 214) \<or> (216 \<le> n \<and> n \<le> 222)
      then char_of (n + 32) else c)"

definition lower :: "string \<Rightarrow> string" where
  "lower s = map lower_char s"

text \<open>\<^verbatim>\<open>str.split()\<close>: the maximal runs of characters that are not whitespace.\<close>

fun split_from :: "string \<Rightarrow> string \<Rightarrow> string list" where
  "split_from word [] = (if word = [] then [] else [rev word])"
| "split_from word (c # cs) =
     (if is_space c then (if word = [] then split_from [] cs else rev word # split_from [] cs)
      else split_from (c # word) cs)"

definition split :: "string \<Rightarrow> string list" where
  "split s = split_from [] s"

text \<open>\<^verbatim>\<open>keyword in text\<close> on strings: \<open>keyword\<close> occurs in \<open>text\<close>.\<close>

fun contains :: "string \<Rightarrow> string \<Rightarrow> bool" where
  "contains [] keyword = (keyword = [])"
| "contains (c # cs) keyword = (startswith (c # cs) keyword \<or> contains cs keyword)"

text \<open>
  The regular expressions of the program are sequences of these atoms: a literal text,
  \<^verbatim>\<open>\s*\<close>, \<^verbatim>\<open>\s+\<close>, the group \<^verbatim>\<open>(\w+)\<close> and \<^verbatim>\<open>$\<close>. \<^verbatim>\<open>re.match\<close> anchors the
  match at the start of the text, which is all that the leading \<^verbatim>\<open>^\<close> asks for. A
  repetition is greedy and gives characters back when the rest does not match:
  the longest run is tried first. \<^verbatim>\<open>$\<close> matches at the end of the text and before a
  newline that ends it. The result of a match is the text of group 1 (\<open>None\<close> when
  the pattern has no group).
\<close>

datatype atom = Lit string | Spaces0 | Spaces1 | WordGroup | EndAnchor

fun first_some :: "'a option list \<Rightarrow> 'a option" where
  "first_some [] = None"
| "first_some (None # xs) = first_some xs"
| "first_some (Some x # xs) = Some x"

fun match_here :: "atom list \<Rightarrow> string \<Rightarrow> string option \<Rightarrow> string option option" where
  "match_here [] s g = Some g"
| "match_here (Lit l # r) s g =
     (if startswith s l then match_here r (drop (length l) s) g else None)"
| "match_here (Spaces0 # r) s g =
     first_some (map (\<lambda>k. match_here r (drop k s) g)
       (rev [0..<Suc (length (takeWhile is_space s))]))"
| "match_here (Spaces1 # r) s g =
     first_some (map (\<lambda>k. match_here r (drop k s) g)
       (rev [1..<Suc (length (takeWhile is_space s))]))"
| "match_here (WordGroup # r) s g =
     first_some (map (\<lambda>k. match_here r (drop k s) (Some (take k s)))
       (rev [1..<Suc (length (takeWhile is_word s))]))"
| "match_here (EndAnchor # r) s g =
     (if s = [] \<or> s = [CHR 0x0A] then match_here r s g else None)"

definition re_match :: "atom list \<Rightarrow> string \<Rightarrow> string option option" where
  "re_match pattern s = match_here pattern s None"

text \<open>\<^verbatim>\<open>any(re.match(pattern, text) for pattern in patterns)\<close>\<close>

definition any_match :: "atom list list \<Rightarrow> string \<Rightarrow> bool" where
  "any_match patterns s = list_ex (\<lambda>pattern. re_match pattern s \<noteq> None) patterns"

text \<open>\<^verbatim>\<open>any(keyword in text for keyword in keywords)\<close>\<close>

definition any_keyword :: "string list \<Rightarrow> string \<Rightarrow> bool" where
  "any_keyword keywords s = list_ex (\<lambda>keyword. contains s keyword) keywords"

definition chat_keywords :: "string list" where
  "chat_keywords =
     [''hello'', ''hi'', ''hey'', ''thanks'', ''thank you'', ''please'', ''help me'',
      ''can you'', ''could you'', ''would you'', ''what is'', ''how do'', ''why'',
      ''explain'', ''tell me'', ''show me'', ''i need'', ''i want'', ''i am'',
      ''my name is'', ''i am working on'', ''i have a problem'', ''i need help'']"

definition direct_command_patterns :: "atom list list" where
  "direct_command_patterns =
     [[Lit ''cd'', Spaces1], [Lit ''ls'', Spaces0], [Lit ''pwd'', Spaces0],
      [Lit ''exit'', Spaces0], [Lit ''help'', Spaces0], [Lit ''clear'', Spaces0],
      [Lit ''mkdir'', Spaces1], [Lit ''touch'', Spaces1], [Lit ''rm'', Spaces1],
      [Lit ''cp'', Spaces1], [Lit ''mv'', Spaces1], [Lit ''cat'', Spaces1],
      [Lit ''edit'', Spaces1], [Lit ''find'', Spaces1], [Lit ''grep'', Spaces1],
      [Lit ''ps'', Spaces0], [Lit ''cpu'', Spaces0], [Lit ''mem'', Spaces0],
      [Lit ''df'', Spaces0], [Lit ''date'', Spaces0], [Lit ''whoami'', Spaces0],
      [Lit ''uname'', Spaces0], [Lit ''echo'', Spaces1], [Lit ''history'', Spaces0],
      [Lit ''stats'', Spaces0], [Lit ''newterm'', Spaces0], [Lit ''sessions'', Spaces0],
      [Lit ''switch'', Spaces1]]"

definition toggle_commands :: "string list" where
  "toggle_commands = [''chat'', ''conversation'', ''talk'', ''converse'']"

definition single_word_commands :: "string list" where
  "single_word_commands =
     [''ls'', ''pwd'', ''ps'', ''cpu'', ''mem'', ''df'', ''date'', ''whoami'', ''uname'',
      ''clear'', ''exit'', ''history'', ''stats'', ''newterm'', ''sessions'']"

definition file_keywords :: "string list" where
  "file_keywords =
     [''create'', ''make'', ''new'', ''file'', ''folder'', ''directory'',
      ''delete'', ''remove'', ''copy'', ''move'', ''rename'', ''edit'',
      ''open'', ''read'', ''write'', ''save'', ''find'', ''search'']"

text \<open>A phrase such as \<^verbatim>\<open>^create\s+folder\s+(\w+)$\<close>.\<close>

definition phrase2 :: "string \<Rightarrow> string \<Rightarrow> atom list" where
  "phrase2 verb noun = [Lit verb, Spaces1, Lit noun, Spaces1, WordGroup, EndAnchor]"

text \<open>A phrase such as \<^verbatim>\<open>^create\s+folder\s+called\s+(\w+)$\<close>.\<close>

definition phrase3 :: "string \<Rightarrow> string \<Rightarrow> atom list" where
  "phrase3 verb noun =
     [Lit verb, Spaces1, Lit noun, Spaces1, Lit ''called'', Spaces1, WordGroup, EndAnchor]"

definition simple_folder_patterns :: "atom list list" where
  "simple_folder_patterns =
     [phrase2 ''create'' ''folder'', phrase2 ''make'' ''folder'', phrase2 ''new'' ''folder'',
      phrase2 ''create'' ''directory'', phrase2 ''make'' ''directory'',
      phrase2 ''new'' ''directory'',
      phrase3 ''create'' ''folder'', phrase3 ''make'' ''folder'',
      phrase3 ''create'' ''directory'', phrase3 ''make'' ''directory'']"

definition simple_file_patterns :: "atom list list" where
  "simple_file_patterns =
     [phrase2 ''create'' ''file'', phrase2 ''make'' ''file'', phrase2 ''new'' ''file'',
      phrase3 ''create'' ''file'', phrase3 ''make'' ''file'']"

definition system_keywords :: "string list" where
  "system_keywords =
     [''cpu'', ''memory'', ''disk'', ''process'', ''system'', ''info'',
      ''usage'', ''performance'', ''status'', ''running'', ''active'',
      ''what time'', ''current time'', ''date'', ''who am i'', ''user'',
      ''files'', ''directory'', ''folder'', ''list'', ''show me'',
      ''what files'', ''what is my'', ''how much'', ''how many'']"

definition action_words :: "string list" where
  "action_words =
     [''create'', ''make'', ''show'', ''list'', ''find'', ''search'',
      ''move'', ''copy'', ''delete'', ''remove'', ''open'', ''read'',
      ''write'', ''save'', ''edit'', ''change'', ''update'', ''modify'',
      ''what'', ''how'', ''where'', ''when'', ''why'', ''which'', ''who'']"

definition is_file_operation :: "string \<Rightarrow> bool" where
  "is_file_operation s = any_keyword file_keywords s"

definition is_simple_folder_creation :: "string \<Rightarrow> bool" where
  "is_simple_folder_creation s = any_match simple_folder_patterns (lower s)"

definition is_simple_file_creation :: "string \<Rightarrow> bool" where
  "is_simple_file_creation s = any_match simple_file_patterns (lower s)"

definition is_system_query :: "string \<Rightarrow> bool" where
  "is_system_query s = any_keyword system_keywords s"

definition is_chat_input :: "string \<Rightarrow> bool" where
  "is_chat_input s = any_keyword chat_keywords s"

definition is_natural_language :: "string \<Rightarrow> bool" where
  "is_natural_language s =
     (if length (split s) > 1 then any_keyword action_words s else False)"

datatype classification =
    Direct_command | Simple_folder_creation | Simple_file_creation | File_operation
  | System_query | Natural_language | Chat | Conversation_toggle | Unknown | Empty

definition classify_input :: "string \<Rightarrow> classification" where
  "classify_input user_input =
     (let user_input_lower = lower user_input in
      if lower user_input \<in> set toggle_commands then Conversation_toggle
      else if length (split user_input) = 1 \<and> user_input \<in> set single_word_commands
        then Direct_command
      else if any_match direct_command_patterns user_input then Direct_command
      else if is_simple_folder_creation user_input_lower then Simple_folder_creation
      else if is_simple_file_creation user_input_lower then Simple_file_creation
      else if is_system_query user_input_lower then System_query
      else if is_file_operation user_input_lower then File_operation
      else if is_natural_language user_input_lower then Natural_language
      else if is_chat_input user_input_lower then Chat
      else Unknown)"

definition is_conversation_toggle :: "string \<Rightarrow> bool" where
  "is_conversation_toggle user_input = (lower user_input \<in> set toggle_commands)"

text \<open>
  The head of \<^verbatim>\<open>process_input\<close>: the input is stripped, the empty input is answered
  with the type \<^verbatim>\<open>empty\<close> before any classification, a toggle word is answered next, and
  in conversation mode every other input goes to the conversation handler. Otherwise the
  handler is chosen by \<^verbatim>\<open>_classify_input\<close>.
\<close>

datatype route = Classified classification | Conversation_input

definition process_input_route :: "bool \<Rightarrow> string \<Rightarrow> route" where
  "process_input_route conversation_mode raw_input =
     (let user_input = strip raw_input in
      if user_input = [] then Classified Empty
      else if is_conversation_toggle user_input
              \<or> classify_input user_input = Conversation_toggle
        then Classified Conversation_toggle
      else if conversation_mode then Conversation_input
      else Classified (classify_input user_input))"

text \<open>
  The extraction loop of \<^verbatim>\<open>_handle_simple_folder_creation\<close>: group 1 of the first pattern
  that matches the lowered input.
\<close>

definition extract_folder_name :: "string \<Rightarrow> string option" where
  "extract_folder_name user_input =
     (case first_some (map (\<lambda>pattern. re_match pattern (lower user_input))
                         simple_folder_patterns) of
        None \<Rightarrow> None
      | Some g \<Rightarrow> g)"

section \<open>Command executor (terminal.py, run_command)\<close>

text \<open>
  \<^verbatim>\<open>run_command\<close> talks to the operating system, to the lock table and to the terminal.
  The lock table, the input still to be read and what was printed are the state
  \<open>world\<close>, together with the log of the file-system operations that were started.
  Everything else is an answer of the environment \<open>env\<close>: each library call is a field
  that gives the value returned or the exception raised. A library call that reads the
  clock or the lock file is numbered by \<open>tick\<close>, the count of accesses to the lock table so
  far: \<open>clock env k\<close> is \<^verbatim>\<open>time.time()\<close> at access \<open>k\<close>, and \<open>others env k\<close> is what the
  other sessions did to the lock file since the access before. The lock file has the
  relative path \<^verbatim>\<open>data/resource_locks.json\<close>: \<open>lock_store\<close> is the file under the working
  directory of the call, which no command changes between two accesses to the lock table.
\<close>

datatype fs_op =
    Chdir string | Makedirs string | Touch string | Rmtree string | Remove string
  | Copytree string string | Copy2 string string | Move string string
  | Write_text string string | Clear_screen | Subprocess "string list"

record world =
  lock_store :: lock_disk
  tick :: nat
  fs_log :: "fs_op list"
  stdin :: "(exn + string) list"
  stdout :: "string list"

record proc_info =
  proc_pid :: nat
  proc_name :: "string option"
  proc_username :: "string option"

record env =
  clock :: "nat \<Rightarrow> real"
  others :: "nat \<Rightarrow> lock_table \<Rightarrow> lock_table"
  abspath :: "string \<Rightarrow> string"
  path_join :: "string \<Rightarrow> string \<Rightarrow> string"
  path_exists :: "string \<Rightarrow> bool"
  isdir :: "string \<Rightarrow> bool"
  isfile :: "string \<Rightarrow> bool"
  getcwd :: "exn + string"
  listdir :: "string \<Rightarrow> exn + string list"
  chdir :: "string \<Rightarrow> exn option"
  makedirs :: "string \<Rightarrow> exn option"
  touch :: "string \<Rightarrow> exn option"
  rmtree :: "string \<Rightarrow> exn option"
  remove :: "string \<Rightarrow> exn option"
  copytree :: "string \<Rightarrow> string \<Rightarrow> exn option"
  copy2 :: "string \<Rightarrow> string \<Rightarrow> exn option"
  move :: "string \<Rightarrow> string \<Rightarrow> exn option"
  read_utf8 :: "string \<Rightarrow> exn + string"
  read_latin1 :: "string \<Rightarrow> exn + string"
  read_lines :: "string \<Rightarrow> exn + string list"
  write_utf8 :: "string \<Rightarrow> string \<Rightarrow> exn option"
  walk :: "string \<Rightarrow> exn + (string \<times> string list \<times> string list) list"
  create_folder_with_path :: "string \<Rightarrow> exn + bool \<times> string \<times> string"
  create_file_with_path :: "string \<Rightarrow> exn + bool \<times> string \<times> string"
  select_file_or_folder :: "string \<Rightarrow> exn + bool \<times> string \<times> string"
  select_destination :: "string \<Rightarrow> string \<Rightarrow> exn + bool \<times> string \<times> string"
  cpu_percent :: "exn + string"
  virtual_memory :: "exn + string \<times> nat \<times> nat"
  process_iter :: "exn + (exn + proc_info) list"
  system_clear :: "exn option"
  strftime_now :: "exn + string"
  getuser :: "exn + string"
  platform :: "exn + string \<times> string \<times> string"
  disk_usage :: "exn + nat \<times> nat \<times> nat"
  percent_text :: "nat \<Rightarrow> nat \<Rightarrow> string"
  subprocess_run :: "string list \<Rightarrow> exn + int \<times> string \<times> string"

type_synonym 'a io = "world \<Rightarrow> (exn + 'a) \<times> world"

definition io_return :: "'a \<Rightarrow> 'a io" where
  "io_return x w = (Inr x, w)"

definition io_raise :: "exn \<Rightarrow> 'a io" where
  "io_raise e w = (Inl e, w)"

text \<open>The answer of a library call that changes nothing in \<open>world\<close>.\<close>

definition io_of :: "exn + 'a \<Rightarrow> 'a io" where
  "io_of r w = (r, w)"

text \<open>One statement after another: an exception of the first skips the second.\<close>

definition io_bind :: "'a io \<Rightarrow> ('a \<Rightarrow> 'b io) \<Rightarrow> 'b io" where
  "io_bind m f w = (case m w of (Inl e, w') \<Rightarrow> (Inl e, w') | (Inr x, w') \<Rightarrow> f x w')"

text \<open>
  \<^verbatim>\<open>try: m except <classes> as e: handler\<close>: the handler runs in the state the exception
  left, and an exception of another class goes on.
\<close>

definition io_try :: "'a io \<Rightarrow> (exn \<Rightarrow> bool) \<Rightarrow> (exn \<Rightarrow> 'a io) \<Rightarrow> 'a io" where
  "io_try m catches handler w =
     (case m w of
        (Inl e, w') \<Rightarrow> if catches e then handler e w' else (Inl e, w')
      | (Inr x, w') \<Rightarrow> (Inr x, w'))"

text \<open>A file-system operation: it is logged, then it returns or raises as \<open>env\<close> says.\<close>

definition fs_do :: "fs_op \<Rightarrow> exn option \<Rightarrow> unit io" where
  "fs_do operation outcome w =
     ((case outcome of None \<Rightarrow> Inr () | Some e \<Rightarrow> Inl e),
      w\<lparr>fs_log := fs_log w @ [operation]\<rparr>)"

definition print_line :: "string \<Rightarrow> unit io" where
  "print_line s w = (Inr (), w\<lparr>stdout := stdout w @ [s]\<rparr>)"

text \<open>The lock file as an access finds it, after what the other sessions did.\<close>

definition observe :: "env \<Rightarrow> world \<Rightarrow> lock_disk" where
  "observe env w = (lock_store w)\<lparr>lock_file := others env (tick w) (lock_file (lock_store w))\<rparr>"

text \<open>
  The three operations of the lock manager as \<^verbatim>\<open>run_command\<close> calls them. \<open>after_check\<close>,
  \<open>after_acquire\<close> and \<open>after_release\<close> are the states they leave, and \<open>acquired\<close> is the
  answer of \<^verbatim>\<open>_acquire_lock\<close>.
\<close>

definition after_check :: "env \<Rightarrow> world \<Rightarrow> world" where
  "after_check env w = w\<lparr>lock_store := observe env w, tick := Suc (tick w)\<rparr>"

definition acquired :: "env \<Rightarrow> string \<Rightarrow> string \<Rightarrow> world \<Rightarrow> bool" where
  "acquired env sid p w = fst (acquire_lock sid p (clock env (tick w)) (observe env w))"

definition after_acquire :: "env \<Rightarrow> string \<Rightarrow> string \<Rightarrow> world \<Rightarrow> world" where
  "after_acquire env sid p w =
     w\<lparr>lock_store := snd (acquire_lock sid p (clock env (tick w)) (observe env w)),
       tick := Suc (tick w)\<rparr>"

definition after_release :: "env \<Rightarrow> string \<Rightarrow> string \<Rightarrow> world \<Rightarrow> world" where
  "after_release env sid p w =
     w\<lparr>lock_store := release_lock sid p (observe env w), tick := Suc (tick w)\<rparr>"

definition check_lock_io :: "env \<Rightarrow> string \<Rightarrow> string \<Rightarrow> string option io" where
  "check_lock_io env sid p w = (Inr (check_lock sid p (observe env w)), after_check env w)"

definition acquire_lock_io :: "env \<Rightarrow> string \<Rightarrow> string \<Rightarrow> bool io" where
  "acquire_lock_io env sid p w = (Inr (acquired env sid p w), after_acquire env sid p w)"

definition release_lock_io :: "env \<Rightarrow> string \<Rightarrow> string \<Rightarrow> unit io" where
  "release_lock_io env sid p w = (Inr (), after_release env sid p w)"

text \<open>\<^verbatim>\<open>if locked_by:\<close> on the answer of \<^verbatim>\<open>_check_lock\<close>: \<^verbatim>\<open>None\<close> and the empty string are false.\<close>

definition truthy :: "string option \<Rightarrow> bool" where
  "truthy r = (case r of None \<Rightarrow> False | Some s \<Rightarrow> s \<noteq> [])"

definition quoted :: "string \<Rightarrow> string" where
  "quoted s = CHR 0x27 # s @ [CHR 0x27]"

definition error_text :: "exn \<Rightarrow> string" where
  "error_text e = ''Error: '' @ snd e"

definition busy :: string where
  "busy = ''Resource is being used by another session. Wait.''"

definition source_busy :: string where
  "source_busy = ''Source resource is being used by another session. Wait.''"

definition destination_busy :: string where
  "destination_busy = ''Destination resource is being used by another session. Wait.''"

text \<open>\<^verbatim>\<open>sep.join(items)\<close>, \<^verbatim>\<open>str.ljust\<close> and \<^verbatim>\<open>str.rjust\<close>.\<close>

fun str_join :: "string \<Rightarrow> string list \<Rightarrow> string" where
  "str_join sep [] = []"
| "str_join sep [x] = x"
| "str_join sep (x # y # ys) = x @ sep @ str_join sep (y # ys)"

definition ljust :: "nat \<Rightarrow> string \<Rightarrow> string" where
  "ljust n s = s @ replicate (n - length s) CHR '' ''"

definition rjust :: "nat \<Rightarrow> string \<Rightarrow> string" where
  "rjust n s = replicate (n - length s) CHR '' '' @ s"

definition cmd_pwd :: "env \<Rightarrow> string io" where
  "cmd_pwd env = io_of (getcwd env)"

definition cmd_ls :: "env \<Rightarrow> string list \<Rightarrow> string io" where
  "cmd_ls env args =
     (let path = (case args of [] \<Rightarrow> ''.'' | a # _ \<Rightarrow> a) in
      io_try
        (io_bind (io_of (listdir env path)) (\<lambda>items. io_return (str_join [CHR 0x0A] items)))
        is_OSError
        (\<lambda>e. io_return (error_text e)))"

definition cmd_cd :: "env \<Rightarrow> string list \<Rightarrow> string io" where
  "cmd_cd env args =
     (case args of
        [] \<Rightarrow> io_return ''Usage: cd <directory>''
      | a # _ \<Rightarrow>
          io_try
            (io_bind (fs_do (Chdir a) (chdir env a)) (\<lambda>_. io_return ''''))
            is_OSError
            (\<lambda>e. io_return (error_text e)))"

definition cmd_mkdir :: "env \<Rightarrow> string list \<Rightarrow> string \<Rightarrow> string io" where
  "cmd_mkdir env args sid =
     (case args of
        [] \<Rightarrow>
          io_bind (io_of (create_folder_with_path env sid))
            (\<lambda>(success, folderpath, message). io_return message)
      | target # _ \<Rightarrow>
          io_try
            (io_bind (check_lock_io env sid (abspath env target)) (\<lambda>locked_by.
               if truthy locked_by then io_return busy
               else io_bind (acquire_lock_io env sid (abspath env target)) (\<lambda>acquired.
                 if \<not> acquired then io_return busy
                 else io_bind (fs_do (Makedirs target) (makedirs env target)) (\<lambda>_.
                      io_bind (release_lock_io env sid (abspath env target)) (\<lambda>_.
                      io_return (''Directory '' @ quoted target @ '' created''))))))
            is_OSError
            (\<lambda>e. io_bind (release_lock_io env sid (abspath env target)) (\<lambda>_.
                  io_return (error_text e))))"

definition cmd_touch :: "env \<Rightarrow> string list \<Rightarrow> string \<Rightarrow> string io" where
  "cmd_touch env args sid =
     (case args of
        [] \<Rightarrow>
          io_bind (io_of (create_file_with_path env sid))
            (\<lambda>(success, filepath, message). io_return message)
      | target # _ \<Rightarrow>
          io_try
            (io_bind (check_lock_io env sid (abspath env target)) (\<lambda>locked_by.
               if truthy locked_by then io_return busy
               else io_bind (acquire_lock_io env sid (abspath env target)) (\<lambda>acquired.
                 if \<not> acquired then io_return busy
                 else io_bind (fs_do (Touch target) (touch env target)) (\<lambda>_.
                      io_bind (release_lock_io env sid (abspath env target)) (\<lambda>_.
                      io_return (''File '' @ quoted target @ '' created''))))))
            is_OSError
            (\<lambda>e. io_bind (release_lock_io env sid (abspath env target)) (\<lambda>_.
                  io_return (error_text e))))"

definition cmd_rm :: "env \<Rightarrow> string list \<Rightarrow> string \<Rightarrow> string io" where
  "cmd_rm env args sid =
     (case args of
        [] \<Rightarrow> io_return ''Error: missing file/folder''
      | target # _ \<Rightarrow>
          if \<not> path_exists env target
          then io_return (''Error: '' @ target @ '' does not exist'')
          else
            io_try
              (io_bind (check_lock_io env sid (abspath env target)) (\<lambda>locked_by.
                 if truthy locked_by then io_return busy
                 else io_bind (acquire_lock_io env sid (abspath env target)) (\<lambda>acquired.
                   if \<not> acquired then io_return busy
                   else
                     io_bind
                       (if isdir env target
                        then io_bind (fs_do (Rmtree target) (rmtree env target)) (\<lambda>_.
                             io_return (''Directory '' @ quoted target @ '' removed''))
                        else io_bind (fs_do (Remove target) (remove env target)) (\<lambda>_.
                             io_return (''File '' @ quoted target @ '' removed'')))
                       (\<lambda>result.
                          io_bind (release_lock_io env sid (abspath env target)) (\<lambda>_.
                          io_return result)))))
              is_OSError
              (\<lambda>e. io_bind (release_lock_io env sid (abspath env target)) (\<lambda>_.
                    io_return (error_text e))))"

text \<open>
  The source and the destination of \<^verbatim>\<open>cp\<close> and \<^verbatim>\<open>mv\<close>: the first two arguments, or
  with fewer than two arguments the answers of the two dialogs; \<open>Inl\<close> is the message
  returned when a dialog was cancelled.
\<close>

definition select_paths :: "env \<Rightarrow> string \<Rightarrow> string \<Rightarrow> string list \<Rightarrow> (string + string \<times> string) io"
  where
  "select_paths env title verb args =
     (case args of
        source # dest # _ \<Rightarrow> io_return (Inr (source, dest))
      | _ \<Rightarrow>
          io_bind (io_of (select_file_or_folder env title)) (\<lambda>(success, source, message).
            if \<not> success then io_return (Inl message)
            else io_bind (io_of (select_destination env source verb))
                   (\<lambda>(success, dest, message).
                      if \<not> success then io_return (Inl message)
                      else io_return (Inr (source, dest)))))"

text \<open>The two checks and the two acquisitions that \<^verbatim>\<open>cp\<close> and \<^verbatim>\<open>mv\<close> share word for word.\<close>

definition cmd_cp :: "env \<Rightarrow> string list \<Rightarrow> string \<Rightarrow> string io" where
  "cmd_cp env args sid =
     io_bind (select_paths env ''Select file/folder to copy'' ''copy'' args) (\<lambda>sel.
       case sel of
         Inl message \<Rightarrow> io_return message
       | Inr (source, dest) \<Rightarrow>
           if \<not> path_exists env source
           then io_return (''Error: '' @ source @ '' does not exist'')
           else
             io_try
               (io_bind (check_lock_io env sid (abspath env source)) (\<lambda>locked_by.
                  if truthy locked_by then io_return source_busy
                  else io_bind (check_lock_io env sid (abspath env dest)) (\<lambda>locked_by.
                  if truthy locked_by then io_return destination_busy
                  else io_bind (acquire_lock_io env sid (abspath env source)) (\<lambda>acquired.
                  if \<not> acquired then io_return source_busy
                  else io_bind (acquire_lock_io env sid (abspath env dest)) (\<lambda>acquired.
                  if \<not> acquired
                  then io_bind (release_lock_io env sid (abspath env source)) (\<lambda>_.
                       io_return destination_busy)
                  else
                    io_bind
                      (if isdir env source
                       then io_bind (fs_do (Copytree source dest) (copytree env source dest))
                              (\<lambda>_. io_return (''Directory '' @ quoted source
                                     @ '' copied to '' @ quoted dest))
                       else io_bind (fs_do (Copy2 source dest) (copy2 env source dest))
                              (\<lambda>_. io_return (''File '' @ quoted source
                                     @ '' copied to '' @ quoted dest)))
                      (\<lambda>result.
                         io_bind (release_lock_io env sid (abspath env source)) (\<lambda>_.
                         io_bind (release_lock_io env sid (abspath env dest)) (\<lambda>_.
                         io_return result))))))))
               is_OSError
               (\<lambda>e. io_bind (release_lock_io env sid (abspath env source)) (\<lambda>_.
                     io_bind (release_lock_io env sid (abspath env dest)) (\<lambda>_.
                     io_return (error_text e)))))"

definition cmd_mv :: "env \<Rightarrow> string list \<Rightarrow> string \<Rightarrow> string io" where
  "cmd_mv env args sid =
     io_bind (select_paths env ''Select file/folder to move'' ''move'' args) (\<lambda>sel.
       case sel of
         Inl message \<Rightarrow> io_return message
       | Inr (source, dest) \<Rightarrow>
           if \<not> path_exists env source
           then io_return (''Error: '' @ source @ '' does not exist'')
           else
             io_try
               (io_bind (check_lock_io env sid (abspath env source)) (\<lambda>locked_by.
                  if truthy locked_by then io_return source_busy
                  else io_bind (check_lock_io env sid (abspath env dest)) (\<lambda>locked_by.
                  if truthy locked_by then io_return destination_busy
                  else io_bind (acquire_lock_io env sid (abspath env source)) (\<lambda>acquired.
                  if \<not> acquired then io_return source_busy
                  else io_bind (acquire_lock_io env sid (abspath env dest)) (\<lambda>acquired.
                  if \<not> acquired
                  then io_bind (release_lock_io env sid (abspath env source)) (\<lambda>_.
                       io_return destination_busy)
                  else
                    io_bind (fs_do (Move source dest) (move env source dest)) (\<lambda>_.
                    io_bind (release_lock_io env sid (abspath env source)) (\<lambda>_.
                    io_bind (release_lock_io env sid (abspath env dest)) (\<lambda>_.
                    io_return (''Moved '' @ quoted source @ '' to '' @ quoted dest)))))))))
               is_OSError
               (\<lambda>e. io_bind (release_lock_io env sid (abspath env source)) (\<lambda>_.
                     io_bind (release_lock_io env sid (abspath env dest)) (\<lambda>_.
                     io_return (error_text e)))))"

definition cmd_cat :: "env \<Rightarrow> string list \<Rightarrow> string io" where
  "cmd_cat env args =
     (case args of
        [] \<Rightarrow> io_return ''Usage: cat <file>''
      | target # _ \<Rightarrow>
          if \<not> path_exists env target
          then io_return (''Error: '' @ target @ '' does not exist'')
          else if \<not> isfile env target
          then io_return (''Error: '' @ target @ '' is not a file'')
          else
            io_try (io_of (read_utf8 env target))
              is_Exception
              (\<lambda>e. if fst e = UnicodeDecodeError
                    then io_try (io_of (read_latin1 env target))
                           is_Exception
                           (\<lambda>e. io_return (''Error reading file: '' @ snd e))
                    else io_return (error_text e)))"

text \<open>
  The input loop of \<^verbatim>\<open>edit\<close>: \<^verbatim>\<open>input("> ")\<close> is called until a line is \<^verbatim>\<open>SAVE\<close>
  after stripping. A call takes the next line of the input (or the exception that the
  read raises, or \<^verbatim>\<open>EOFError\<close> when the input has ended); the loop answers the lines
  read, the input left and the number of prompts written.
\<close>

fun read_until_save ::
  "(exn + string) list \<Rightarrow> string list \<Rightarrow> nat
   \<Rightarrow> (exn + string list) \<times> (exn + string) list \<times> nat" where
  "read_until_save [] new_content n =
     (Inl (EOFError, ''EOF when reading a line''), [], Suc n)"
| "read_until_save (Inl e # rest) new_content n = (Inl e, rest, Suc n)"
| "read_until_save (Inr line # rest) new_content n =
     (if strip line = ''SAVE'' then (Inr new_content, rest, Suc n)
      else read_until_save rest (new_content @ [line]) (Suc n))"

definition edit_loop :: "string list io" where
  "edit_loop w =
     (case read_until_save (stdin w) [] 0 of
        (r, rest, n) \<Rightarrow> (r, w\<lparr>stdin := rest, stdout := stdout w @ replicate n ''> ''\<rparr>))"

definition cmd_edit :: "env \<Rightarrow> string list \<Rightarrow> string \<Rightarrow> string io" where
  "cmd_edit env args sid =
     (case args of
        [] \<Rightarrow> io_return ''Usage: edit <file>''
      | target # _ \<Rightarrow>
          io_try
            (io_bind (check_lock_io env sid (abspath env target)) (\<lambda>locked_by.
               if truthy locked_by then io_return busy
               else io_bind (acquire_lock_io env sid (abspath env target)) (\<lambda>acquired.
                 if \<not> acquired then io_return busy
                 else
                   io_bind (if path_exists env target then io_of (read_utf8 env target)
                            else io_return '''') (\<lambda>content.
                   io_bind (print_line (''Editing '' @ target
                              @ '' (type '' @ quoted ''SAVE''
                              @ '' on a new line to save and exit):'')) (\<lambda>_.
                   io_bind (print_line (replicate 50 CHR ''-'')) (\<lambda>_.
                   io_bind (print_line content) (\<lambda>_.
                   io_bind (print_line (replicate 50 CHR ''-'')) (\<lambda>_.
                   io_bind edit_loop (\<lambda>new_content.
                   io_bind (fs_do (Write_text target (str_join [CHR 0x0A] new_content))
                              (write_utf8 env target (str_join [CHR 0x0A] new_content)))
                     (\<lambda>_.
                   io_bind (release_lock_io env sid (abspath env target)) (\<lambda>_.
                   io_return (''File '' @ quoted target @ '' saved''))))))))))))
            is_Exception
            (\<lambda>e. io_bind (release_lock_io env sid (abspath env target)) (\<lambda>_.
                  io_return (error_text e))))"

definition cmd_cpu :: "env \<Rightarrow> string io" where
  "cmd_cpu env =
     io_bind (io_of (cpu_percent env)) (\<lambda>percent.
       io_return (''CPU Usage: '' @ percent @ ''%''))"

definition cmd_mem :: "env \<Rightarrow> string io" where
  "cmd_mem env =
     io_bind (io_of (virtual_memory env)) (\<lambda>(percent, used, total).
       io_return (''Memory Usage: '' @ percent @ ''% (''
         @ str_nat (used div (1024 * 1024)) @ '' MB / ''
         @ str_nat (total div (1024 * 1024)) @ '' MB)''))"

text \<open>
  One row of \<^verbatim>\<open>ps\<close>. A process without a name makes the format \<^verbatim>\<open>:<20\<close> raise
  \<^verbatim>\<open>TypeError\<close>; a missing user name prints as \<^verbatim>\<open>None\<close>. Rows that raise
  \<^verbatim>\<open>NoSuchProcess\<close> or \<^verbatim>\<open>AccessDenied\<close> are skipped.
\<close>

definition ps_row :: "proc_info \<Rightarrow> exn + string" where
  "ps_row p =
     (case proc_name p of
        None \<Rightarrow> Inl (TypeError, ''unsupported format string passed to NoneType.__format__'')
      | Some name \<Rightarrow>
          Inr (rjust 6 (str_nat (proc_pid p)) @ '' '' @ ljust 20 name @ '' ''
               @ (case proc_username p of None \<Rightarrow> ''None'' | Some u \<Rightarrow> u)))"

fun ps_rows :: "(exn + proc_info) list \<Rightarrow> exn + string list" where
  "ps_rows [] = Inr []"
| "ps_rows (entry # entries) =
     (case (case entry of Inl e \<Rightarrow> Inl e | Inr p \<Rightarrow> ps_row p) of
        Inl e \<Rightarrow>
          if fst e = NoSuchProcess \<or> fst e = AccessDenied then ps_rows entries else Inl e
      | Inr row \<Rightarrow>
          (case ps_rows entries of Inl e \<Rightarrow> Inl e | Inr rows \<Rightarrow> Inr (row # rows)))"

definition cmd_ps :: "env \<Rightarrow> string io" where
  "cmd_ps env =
     io_bind (io_of (process_iter env)) (\<lambda>entries.
     io_bind (io_of (ps_rows entries)) (\<lambda>processes.
       if processes \<noteq> []
       then io_return (ljust 6 ''PID'' @ '' '' @ ljust 20 ''Name'' @ '' '' @ ''User''
                       @ [CHR 0x0A] @ str_join [CHR 0x0A] processes)
       else io_return ''No processes found''))"

text \<open>The matches of \<^verbatim>\<open>find\<close> in one directory of the walk: files first, then directories.\<close>

definition find_matches ::
  "env \<Rightarrow> string \<Rightarrow> string \<times> string list \<times> string list \<Rightarrow> string list" where
  "find_matches env pattern entry =
     (case entry of (root_dir, dirs, files) \<Rightarrow>
        map (path_join env root_dir) (filter (\<lambda>file. contains file pattern) files)
        @ map (path_join env root_dir) (filter (\<lambda>dir_name. contains dir_name pattern) dirs))"

definition cmd_find :: "env \<Rightarrow> string list \<Rightarrow> string io" where
  "cmd_find env args =
     (case args of
        search_path # pattern # _ \<Rightarrow>
          if \<not> path_exists env search_path
          then io_return (''Error: '' @ search_path @ '' does not exist'')
          else
            io_try
              (io_bind (io_of (walk env search_path)) (\<lambda>entries.
                 let results = concat (map (find_matches env pattern) entries) in
                 if results \<noteq> [] then io_return (str_join [CHR 0x0A] results)
                 else io_return (''No files or directories matching '' @ quoted pattern
                                 @ '' found'')))
              is_Exception
              (\<lambda>e. io_return (error_text e))
      | _ \<Rightarrow> io_return ''Usage: find <path> <name_pattern>'')"

text \<open>The matching lines of \<^verbatim>\<open>grep\<close>, numbered from 1.\<close>

fun grep_matches :: "string \<Rightarrow> string \<Rightarrow> nat \<Rightarrow> string list \<Rightarrow> string list" where
  "grep_matches file_path pattern line_num [] = []"
| "grep_matches file_path pattern line_num (line # rest) =
     (if contains line pattern
      then (file_path @ '':'' @ str_nat line_num @ '': '' @ strip line)
           # grep_matches file_path pattern (Suc line_num) rest
      else grep_matches file_path pattern (Suc line_num) rest)"

definition cmd_grep :: "env \<Rightarrow> string list \<Rightarrow> string io" where
  "cmd_grep env args =
     (case args of
        pattern # file_path # _ \<Rightarrow>
          if \<not> path_exists env file_path
          then io_return (''Error: '' @ file_path @ '' does not exist'')
          else if \<not> isfile env file_path
          then io_return (''Error: '' @ file_path @ '' is not a file'')
          else
            io_try
              (io_bind (io_of (read_lines env file_path)) (\<lambda>lines.
                 let matches = grep_matches file_path pattern 1 lines in
                 if matches \<noteq> [] then io_return (str_join [CHR 0x0A] matches)
                 else io_return (''Pattern '' @ quoted pattern @ '' not found in ''
                                 @ file_path)))
              is_Exception
              (\<lambda>e. io_return (error_text e))
      | _ \<Rightarrow> io_return ''Usage: grep <pattern> <file>'')"

definition cmd_clear :: "env \<Rightarrow> string io" where
  "cmd_clear env = io_bind (fs_do Clear_screen (system_clear env)) (\<lambda>_. io_return '''')"

definition cmd_echo :: "string list \<Rightarrow> string io" where
  "cmd_echo args = io_return (if args \<noteq> [] then str_join '' '' args else '''')"

definition cmd_date :: "env \<Rightarrow> string io" where
  "cmd_date env = io_of (strftime_now env)"

definition cmd_whoami :: "env \<Rightarrow> string io" where
  "cmd_whoami env = io_of (getuser env)"

definition cmd_uname :: "env \<Rightarrow> string io" where
  "cmd_uname env =
     io_bind (io_of (platform env)) (\<lambda>(system, release, machine).
       io_return (system @ '' '' @ release @ '' '' @ machine))"

text \<open>
  \<^verbatim>\<open>df\<close>. The sizes are bytes; \<open>percent_text env used total\<close> is the text of
  \<^verbatim>\<open>(used / total) * 100\<close> in the format \<^verbatim>\<open>4.1f\<close>, and a total of zero raises
  \<^verbatim>\<open>ZeroDivisionError\<close>.
\<close>

definition cmd_df :: "env \<Rightarrow> string io" where
  "cmd_df env =
     io_try
       (io_bind (io_of (disk_usage env)) (\<lambda>(total_bytes, used_bytes, free_bytes).
          let total = total_bytes div (1024 ^ 3);
              used = used_bytes div (1024 ^ 3);
              free = free_bytes div (1024 ^ 3) in
          if total_bytes = 0 then io_raise (ZeroDivisionError, ''division by zero'')
          else io_return
            (''Filesystem      Size  Used  Avail  Use%'' @ [CHR 0x0A]
             @ ''/dev/disk        '' @ rjust 3 (str_nat total) @ ''G  ''
             @ rjust 3 (str_nat used) @ ''G  '' @ rjust 3 (str_nat free) @ ''G  ''
             @ percent_text env used_bytes total_bytes @ ''%'')))
       is_Exception
       (\<lambda>e. io_return (error_text e))"

text \<open>Any other command name goes to the host shell, with a timeout of 10 seconds.\<close>

definition cmd_shell :: "env \<Rightarrow> string \<Rightarrow> string list \<Rightarrow> string io" where
  "cmd_shell env cmd args =
     io_try
       (io_bind (\<lambda>w. (subprocess_run env (cmd # args),
                       w\<lparr>fs_log := fs_log w @ [Subprocess (cmd # args)]\<rparr>))
          (\<lambda>(returncode, out, err).
             if returncode = 0 then io_return (strip out)
             else io_return (''Error: '' @ strip err)))
       is_Exception
       (\<lambda>e. if fst e = TimeoutExpired then io_return ''Error: Command timed out''
             else if fst e = FileNotFoundError then io_return ''Command not found''
             else io_return (error_text e))"

definition dispatch :: "env \<Rightarrow> string \<Rightarrow> string list \<Rightarrow> string \<Rightarrow> string io" where
  "dispatch env cmd args sid =
     (if cmd = ''pwd'' then cmd_pwd env
      else if cmd = ''ls'' then cmd_ls env args
      else if cmd = ''cd'' then cmd_cd env args
      else if cmd = ''mkdir'' then cmd_mkdir env args sid
      else if cmd = ''touch'' then cmd_touch env args sid
      else if cmd = ''rm'' then cmd_rm env args sid
      else if cmd = ''cp'' then cmd_cp env args sid
      else if cmd = ''mv'' then cmd_mv env args sid
      else if cmd = ''cat'' then cmd_cat env args
      else if cmd = ''edit'' then cmd_edit env args sid
      else if cmd = ''cpu'' then cmd_cpu env
      else if cmd = ''mem'' then cmd_mem env
      else if cmd = ''ps'' then cmd_ps env
      else if cmd = ''find'' then cmd_find env args
      else if cmd = ''grep'' then cmd_grep env args
      else if cmd = ''clear'' then cmd_clear env
      else if cmd = ''echo'' then cmd_echo args
      else if cmd = ''date'' then cmd_date env
      else if cmd = ''whoami'' then cmd_whoami env
      else if cmd = ''uname'' then cmd_uname env
      else if cmd = ''df'' then cmd_df env
      else cmd_shell env cmd args)"

text \<open>\<^verbatim>\<open>run_command\<close>: the dispatch inside \<^verbatim>\<open>try: ... except Exception as e\<close>.\<close>

definition run_command :: "env \<Rightarrow> string \<Rightarrow> string list \<Rightarrow> string \<Rightarrow> string io" where
  "run_command env cmd args sid =
     io_try (dispatch env cmd args sid) is_Exception (\<lambda>e. io_return (error_text e))"

text \<open>
  A quiet environment: nothing fails, no other session touches the lock table, every path
  exists as a file and is its own absolute path, and the clock shows the access number.
\<close>

definition env0 :: env where
  "env0 =
     \<lparr>clock = real, others = (\<lambda>k locks. locks), abspath = (\<lambda>p. p),
      path_join = (\<lambda>a b. a @ ''/'' @ b), path_exists = (\<lambda>p. True), isdir = (\<lambda>p. False),
      isfile = (\<lambda>p. True), getcwd = Inr ''/home/user'', listdir = (\<lambda>p. Inr []),
      chdir = (\<lambda>p. None), makedirs = (\<lambda>p. None), touch = (\<lambda>p. None),
      rmtree = (\<lambda>p. None), remove = (\<lambda>p. None), copytree = (\<lambda>a b. None),
      copy2 = (\<lambda>a b. None), move = (\<lambda>a b. None), read_utf8 = (\<lambda>p. Inr ''''),
      read_latin1 = (\<lambda>p. Inr ''''), read_lines = (\<lambda>p. Inr []),
      write_utf8 = (\<lambda>p s. None), walk = (\<lambda>p. Inr []),
      create_folder_with_path = (\<lambda>s. Inr (False, '''', ''Cancelled'')),
      create_file_with_path = (\<lambda>s. Inr (False, '''', ''Cancelled'')),
      select_file_or_folder = (\<lambda>s. Inr (False, '''', ''Cancelled'')),
      select_destination = (\<lambda>s v. Inr (False, '''', ''Cancelled'')),
      cpu_percent = Inr ''12.5'', virtual_memory = Inr (''40.0'', 0, 0),
      process_iter = Inr [], system_clear = None, strftime_now = Inr ''2025-01-01 00:00:00'',
      getuser = Inr ''user'', platform = Inr (''Linux'', ''6.0'', ''x86_64''),
      disk_usage = Inr (0, 0, 0), percent_text = (\<lambda>u t. '' 0.0''),
      subprocess_run = (\<lambda>argv. Inr (0, '''', ''''))\<rparr>"

text \<open>The user presses Ctrl-C while \<^verbatim>\<open>psutil.cpu_percent(interval=1)\<close> sleeps.\<close>

definition env_interrupt :: env where
  "env_interrupt = env0\<lparr>cpu_percent := Inl (KeyboardInterrupt, '''')\<rparr>"




definition world0 :: world where
  "world0 = \<lparr>lock_store = \<lparr>lock_file = Map.empty, writable = True\<rparr>, tick = 0,
             fs_log = [], stdin = [], stdout = []\<rparr>"






text \<open>The text that \<^verbatim>\<open>cp\<close> or \<^verbatim>\<open>mv\<close> returns after the operation went through.\<close>

definition transfer_message :: "env \<Rightarrow> string \<Rightarrow> string \<Rightarrow> string \<Rightarrow> string" where
  "transfer_message env cmd source dest =
     (if cmd = ''mv'' then ''Moved '' @ quoted source @ '' to '' @ quoted dest
      else if isdir env source
        then ''Directory '' @ quoted source @ '' copied to '' @ quoted dest
      else ''File '' @ quoted source @ '' copied to '' @ quoted dest)"


section \<open>Fast path of the unified processor (unified_processor.py)\<close>

text \<open>
  The dictionary that a handler of \<^verbatim>\<open>process_input\<close> returns, with the keys
  \<^verbatim>\<open>type\<close>, \<^verbatim>\<open>result\<close>, \<^verbatim>\<open>message\<close> and, from the folder fast path, \<^verbatim>\<open>folder_name\<close>.
\<close>

record handler_result =
  result_type :: string
  result :: string
  message :: string
  folder_name :: "string option"

text \<open>
  \<^verbatim>\<open>_handle_simple_folder_creation\<close>: the name is extracted (\<^verbatim>\<open>if not folder_name\<close> also
  rejects an empty name), \<^verbatim>\<open>mkdir\<close> is run with it, and any exception below
  \<^verbatim>\<open>Exception\<close> becomes an error result.
\<close>

definition handle_simple_folder_creation :: "env \<Rightarrow> string \<Rightarrow> string \<Rightarrow> handler_result io"
  where
  "handle_simple_folder_creation env user_input sid =
     io_try
       (case extract_folder_name user_input of
          None \<Rightarrow>
            io_return \<lparr>result_type = ''error'', result = ''Could not extract folder name'',
                        message = ''Please specify a folder name'', folder_name = None\<rparr>
        | Some name \<Rightarrow>
            if name = []
            then io_return \<lparr>result_type = ''error'',
                             result = ''Could not extract folder name'',
                             message = ''Please specify a folder name'', folder_name = None\<rparr>
            else io_bind (run_command env ''mkdir'' [name] sid) (\<lambda>output.
                   io_return \<lparr>result_type = ''simple_folder_creation'', result = output,
                               message = ''Created folder: '' @ name,
                               folder_name = Some name\<rparr>))
       is_Exception
       (\<lambda>e. io_return \<lparr>result_type = ''error'',
                         result = ''Error creating folder: '' @ snd e,
                         message = ''Folder creation failed'', folder_name = None\<rparr>)"

section \<open>Properties of the lock manager\<close>

lemma purge_expired_apply:
  "purge_expired t locks r =
     (case locks r of None \<Rightarrow> None
      | Some li \<Rightarrow> if t - timestamp li > 300 then None else Some li)"
  by (simp add: purge_expired_def)

lemma held_by_other_upd_same [simp]:
  "held_by_other sid p (locks(p \<mapsto> \<lparr>session_id = sid, timestamp = t\<rparr>)) = False"
  by (simp add: held_by_other_def)

lemma held_by_removed [simp]: "held_by sid p (locks(p := None)) = False"
  by (simp add: held_by_def)

lemma check_lock_iff_held_by_other:
  "(check_lock sid p d \<noteq> None) = held_by_other sid p (load_locks d)"
  by (simp add: check_lock_def held_by_other_def split: option.splits)

text \<open>
  C1, as the code has it. The purge works on the loaded copy: it decides the answer, and
  it reaches the file only together with the new entry. A refused acquisition returns
  before \<^verbatim>\<open>_save_locks\<close> and leaves the file as it was, expired entries included.
  The answer is \<open>False\<close> exactly when the purged table maps the path to an entry of another
  session; otherwise the answer is \<open>True\<close> and, when the write goes through, the file holds
  the purged table with the path mapped to the caller's entry stamped with the current time.
\<close>

theorem acquire_lock_spec:
  assumes "writable d"
  shows "(fst (acquire_lock s p now d) = False) =
           held_by_other s p (purge_expired now (load_locks d))
       \<and> (if held_by_other s p (purge_expired now (load_locks d))
          then acquire_lock s p now d = (False, d)
          else fst (acquire_lock s p now d) = True
             \<and> load_locks (snd (acquire_lock s p now d)) =
                 (purge_expired now (load_locks d))
                   (p \<mapsto> \<lparr>session_id = s, timestamp = now\<rparr>))"
  using assms by (simp add: acquire_lock_def save_locks_def load_locks_def Let_def)

theorem acquire_lock_spec_witness:
  "writable disk_A
   \<and> fst (acquire_lock ''B'' ''/tmp/x'' 100 disk_A) = False
   \<and> snd (acquire_lock ''B'' ''/tmp/x'' 100 disk_A) = disk_A
   \<and> fst (acquire_lock ''B'' ''/tmp/x'' 301 disk_A) = True
   \<and> load_locks (snd (acquire_lock ''B'' ''/tmp/x'' 301 disk_A)) ''/tmp/x''
       = Some \<lparr>session_id = ''B'', timestamp = 301\<rparr>"
proof -
  have w: "writable disk_A" by (simp add: disk_A_def)
  have live: "held_by_other ''B'' ''/tmp/x'' (purge_expired 100 (load_locks disk_A))"
    by (simp add: held_by_other_def purge_expired_def load_locks_def disk_A_def)
  have dead: "\<not> held_by_other ''B'' ''/tmp/x'' (purge_expired 301 (load_locks disk_A))"
    by (simp add: held_by_other_def purge_expired_def load_locks_def disk_A_def)
  from acquire_lock_spec [OF w, of "''B''" "''/tmp/x''" 100] live
  have a: "acquire_lock ''B'' ''/tmp/x'' 100 disk_A = (False, disk_A)" by simp
  from acquire_lock_spec [OF w, of "''B''" "''/tmp/x''" 301] dead
  have b: "fst (acquire_lock ''B'' ''/tmp/x'' 301 disk_A) = True
           \<and> load_locks (snd (acquire_lock ''B'' ''/tmp/x'' 301 disk_A)) ''/tmp/x''
              = Some \<lparr>session_id = ''B'', timestamp = 301\<rparr>" by simp
  from w a b show ?thesis by simp
qed

text \<open>
  C1 as stated fails: B's fresh lock on \<^verbatim>\<open>/tmp/x\<close> refuses session C at time 1000, and
  the stale entry of \<^verbatim>\<open>/tmp/old\<close>, more than 300 seconds old, is still in the table
  afterwards, so the table left behind is not the purged one.
\<close>

theorem acquire_lock_refusal_keeps_expired:
  "fst (acquire_lock ''C'' ''/tmp/x'' 1000 disk_stale) = False
   \<and> 1000 - timestamp (the (load_locks disk_stale ''/tmp/old'')) > 300
   \<and> load_locks (snd (acquire_lock ''C'' ''/tmp/x'' 1000 disk_stale)) ''/tmp/old''
       = Some \<lparr>session_id = ''A'', timestamp = 0\<rparr>
   \<and> purge_expired 1000 (load_locks disk_stale) ''/tmp/old'' = None
   \<and> load_locks (snd (acquire_lock ''C'' ''/tmp/x'' 1000 disk_stale))
       \<noteq> purge_expired 1000 (load_locks disk_stale)"
proof -
  have r: "acquire_lock ''C'' ''/tmp/x'' 1000 disk_stale = (False, disk_stale)"
    by (simp add: acquire_lock_def held_by_other_def purge_expired_def load_locks_def
        disk_stale_def Let_def)
  have old: "load_locks disk_stale ''/tmp/old'' = Some \<lparr>session_id = ''A'', timestamp = 0\<rparr>"
    by (simp add: load_locks_def disk_stale_def)
  have gone: "purge_expired 1000 (load_locks disk_stale) ''/tmp/old'' = None"
    by (simp add: purge_expired_apply old)
  have "load_locks disk_stale \<noteq> purge_expired 1000 (load_locks disk_stale)"
  proof
    assume "load_locks disk_stale = purge_expired 1000 (load_locks disk_stale)"
    then have "load_locks disk_stale ''/tmp/old''
               = purge_expired 1000 (load_locks disk_stale) ''/tmp/old''" by simp
    with old gone show False by simp
  qed
  with r old gone show ?thesis by simp
qed

text \<open>
  C2. \<^verbatim>\<open>_check_lock\<close> never looks at the timestamp: 301 seconds after session A took
  \<^verbatim>\<open>/tmp/x\<close> (and at any later time, until some acquisition rewrites the file) it still
  reports A as the holder to session B, although the entry is past the 300 second window
  that \<^verbatim>\<open>_acquire_lock\<close> applies to the same table.
\<close>

theorem check_lock_reports_expired:
  "acquire_lock ''A'' ''/tmp/x'' 0 \<lparr>lock_file = Map.empty, writable = True\<rparr> = (True, disk_A)
   \<and> (301::real) - timestamp (the (load_locks disk_A ''/tmp/x'')) > 300
   \<and> check_lock ''B'' ''/tmp/x'' disk_A = Some ''A''"
proof -
  have "purge_expired 0 Map.empty = Map.empty"
    by (rule ext) (simp add: purge_expired_def)
  then show ?thesis
    by (simp add: acquire_lock_def check_lock_def held_by_other_def save_locks_def
        load_locks_def disk_A_def Let_def)
qed

text \<open>
  The other half of C2 holds: once a lock of session \<open>s\<close> on \<open>p\<close> stamped \<open>t\<close> is more than
  300 seconds old, an acquisition of \<open>p\<close> by any session succeeds.
\<close>

lemma acquire_lock_after_expiry:
  assumes "load_locks d p = Some \<lparr>session_id = s, timestamp = t\<rparr>" and "t + 301 \<le> now"
  shows "fst (acquire_lock s2 p now d) = True"
  using assms by (simp add: acquire_lock_def held_by_other_def purge_expired_def Let_def)



section \<open>Properties of the history store\<close>


lemma dir_writable_save [simp]:
  "dir_writable (save_session_history sid h d) = dir_writable d"
  by (simp add: save_session_history_def)






text \<open>
  The module-level \<^verbatim>\<open>history.add_command\<close>, which the program never calls, has no such
  guard: it stores the same command twice.
\<close>

lemma history_add_command_twice:
  "load_history ''s'' (history_add_command ''s'' ''ls'' (history_add_command ''s'' ''ls'' dir0))
     = [''ls'', ''ls'']"
  by (simp add: history_add_command_def load_history_def save_history_def dir0_def)

section \<open>Properties of the session manager\<close>

lemma digit_char_cases:
  assumes "d < 10"
  shows "digit_char d \<in> set ''0123456789''"
proof -
  from assms have "d \<in> {0,1,2,3,4,5,6,7,8,9}" by auto
  then show ?thesis by (auto simp: digit_char_def)
qed

lemma digit_char_not_sep: "d < 10 \<Longrightarrow> digit_char d \<noteq> CHR ''_''"
  using digit_char_cases [of d] by auto

lemma digit_char_not_space: "d < 10 \<Longrightarrow> \<not> is_space (digit_char d)"
  using digit_char_cases [of d] by (auto simp: is_space_def)

lemma digit_val_digit_char: "d < 10 \<Longrightarrow> digit_val (digit_char d) = d"
proof -
  assume "d < 10"
  then have "d \<in> {0,1,2,3,4,5,6,7,8,9}" by auto
  then show ?thesis
    by (auto simp: digit_val_def digit_char_def)
qed

lemma nat_of_str_str_nat: "nat_of_str (str_nat n) = n"
proof (induction n rule: str_nat.induct)
  case (1 n)
  show ?case
  proof (cases "n < 10")
    case True
    then show ?thesis
      by (simp add: str_nat.simps [of n] nat_of_str_def digit_val_digit_char)
  next
    case False
    with 1 have "nat_of_str (str_nat (n div 10)) = n div 10" by simp
    with False show ?thesis
      by (simp add: str_nat.simps [of n] nat_of_str_def digit_val_digit_char)
  qed
qed

lemma str_nat_inj: "str_nat n = str_nat m \<Longrightarrow> n = m"
  by (metis nat_of_str_str_nat)

lemma sep_notin_str_nat: "CHR ''_'' \<notin> set (str_nat n)"
proof (induction n rule: str_nat.induct)
  case (1 n)
  show ?case
  proof (cases "n < 10")
    case True
    then show ?thesis
      using digit_char_not_sep [of n] by (auto simp: str_nat.simps [of n])
  next
    case False
    with 1 have "CHR ''_'' \<notin> set (str_nat (n div 10))" by simp
    with False show ?thesis
      using digit_char_not_sep [of "n mod 10"] by (auto simp: str_nat.simps [of n])
  qed
qed

lemma process_prefix_inj:
  assumes "process_prefix p @ r = process_prefix q @ r'"
  shows "p = q"
proof -
  from assms have "str_nat p @ CHR ''_'' # r = str_nat q @ CHR ''_'' # r'"
    by (simp add: process_prefix_def)
  then have "takeWhile (\<lambda>c. c \<noteq> CHR ''_'') (str_nat p @ CHR ''_'' # r)
           = takeWhile (\<lambda>c. c \<noteq> CHR ''_'') (str_nat q @ CHR ''_'' # r')" by simp
  moreover have "\<And>n x. takeWhile (\<lambda>c. c \<noteq> CHR ''_'') (str_nat n @ CHR ''_'' # x) = str_nat n"
    using sep_notin_str_nat by (subst takeWhile_append2) auto
  ultimately have "str_nat p = str_nat q" by simp
  then show ?thesis by (rule str_nat_inj)
qed

lemma strip_keeps_prefix:
  assumes "startswith text (process_prefix pid)"
  shows "\<exists>r. strip text = process_prefix pid @ r"
proof -
  obtain body where pp: "process_prefix pid = CHR ''s'' # body @ ''_''"
    by (simp add: process_prefix_def)
  from assms obtain rest where t: "text = process_prefix pid @ rest"
    by (metis startswith_def append_take_drop_id)
  have ns: "\<not> is_space CHR ''s''" "\<not> is_space CHR ''_''" by (simp_all add: is_space_def)
  have "dropWhile is_space text = text" using t pp ns by simp
  moreover have "dropWhile is_space (rev text) =
      dropWhile is_space (rev rest) @ rev (process_prefix pid)
      \<or> dropWhile is_space (rev text) = rev (process_prefix pid)"
    using t pp ns by (simp add: dropWhile_append)
  ultimately show ?thesis by (auto simp: strip_def)
qed

lemma strip_id:
  assumes "s \<noteq> []" "\<not> is_space (hd s)" "\<not> is_space (last s)"
  shows "strip s = s"
proof -
  have "dropWhile is_space s = s" using assms by (simp add: dropWhile_eq_self_iff)
  moreover have "dropWhile is_space (rev s) = rev s"
    using assms by (simp add: dropWhile_eq_self_iff hd_rev)
  ultimately show ?thesis by (simp add: strip_def)
qed

lemma str_nat_last: "str_nat n \<noteq> [] \<and> last (str_nat n) = digit_char (n mod 10)"
  by (simp add: str_nat.simps [of n])

lemma str_int_last: "str_int i \<noteq> [] \<and> \<not> is_space (last (str_int i))"
  using str_nat_last digit_char_not_space [of "nat i mod 10"]
    digit_char_not_space [of "nat (- i) mod 10"]
  by (simp add: str_int_def)

lemma strip_process_session_id:
  "strip (process_session_id pid now) = process_session_id pid now"
proof (rule strip_id)
  show "process_session_id pid now \<noteq> []" by (simp add: process_session_id_def)
  show "\<not> is_space (hd (process_session_id pid now))"
    by (simp add: process_session_id_def is_space_def)
  show "\<not> is_space (last (process_session_id pid now))"
    using str_int_last [of "py_int now"] by (simp add: process_session_id_def)
qed

lemma create_unique_Inr:
  "create_unique_session_for_process pid now sm = Inr (s, x) \<Longrightarrow>
     s = process_session_id pid now \<and> dir_writable (data sm)
     \<and> process_session_files (data x) = (process_session_files (data sm))(pid \<mapsto> s)"
  by (auto simp: create_unique_session_for_process_def save_session_info_def Let_def
      split: if_splits)

lemma create_unique_total:
  "dir_writable (data sm) \<Longrightarrow> \<exists>r. create_unique_session_for_process pid now sm = Inr r"
  by (simp add: create_unique_session_for_process_def Let_def)

lemma create_unique_Inl:
  "create_unique_session_for_process pid now sm = Inl e \<Longrightarrow> \<not> dir_writable (data sm)"
  by (auto simp: create_unique_session_for_process_def Let_def split: if_splits)

lemma get_current_created:
  assumes "process_session_files (data sm) pid = None"
    and "get_current_session pid now sm = Inr (s, x)"
  shows "create_unique_session_for_process pid now sm = Inr (s, x)"
  using assms
  by (auto simp: get_current_session_def split: sum.splits if_splits)


lemma process_session_id_prefix:
  "process_session_id pid now = process_prefix pid @ str_int (py_int now)"
  by (simp add: process_session_id_def process_prefix_def)

lemma get_current_prefix:
  assumes "bindings_wf (data sm)" and "get_current_session pid now sm = Inr (s, x)"
  shows "\<exists>r. s = process_prefix pid @ r"
proof (cases "process_session_files (data sm) pid")
  case None
  from get_current_created [OF None assms(2)] create_unique_Inr
  have "s = process_session_id pid now" by blast
  then show ?thesis by (simp add: process_session_id_prefix)
next
  case (Some content)
  with assms(2) have s: "s = strip content" by (simp add: get_current_session_def)
  from assms(1) Some have "startswith content (process_prefix pid)"
    by (simp add: bindings_wf_def)
  from strip_keeps_prefix [OF this] s show ?thesis by simp
qed

lemma get_current_wf:
  assumes "bindings_wf (data sm)" and "get_current_session pid now sm = Inr (s, x)"
  shows "bindings_wf (data x)"
proof (cases "process_session_files (data sm) pid")
  case None
  from get_current_created [OF None assms(2)] create_unique_Inr
  have "s = process_session_id pid now"
    and "process_session_files (data x) = (process_session_files (data sm))(pid \<mapsto> s)"
    by blast+
  with assms(1) show ?thesis
    by (auto simp: bindings_wf_def process_session_id_prefix startswith_def)
next
  case (Some content)
  with assms(2) have "x = sm" by (simp add: get_current_session_def)
  with assms(1) show ?thesis by simp
qed

lemma get_current_again:
  assumes "get_current_session pid t1 sm = Inr (s, x)"
  shows "get_current_session pid t2 x = Inr (s, x)"
proof (cases "process_session_files (data sm) pid")
  case None
  from get_current_created [OF None assms] create_unique_Inr
  have "s = process_session_id pid t1"
    and "process_session_files (data x) = (process_session_files (data sm))(pid \<mapsto> s)"
    by blast+
  then show ?thesis
    by (simp add: get_current_session_def strip_process_session_id)
next
  case (Some content)
  with assms have "x = sm" "s = strip content" by (simp_all add: get_current_session_def)
  with Some show ?thesis by (simp add: get_current_session_def)
qed

lemma get_current_total:
  assumes "dir_writable (data sm)"
  shows "\<exists>r. get_current_session pid now sm = Inr r"
  using create_unique_total [OF assms, of pid now]
  by (auto simp: get_current_session_def split: option.splits)

text \<open>
  C9. \<^verbatim>\<open>get_current_session\<close> returns a session id whenever the directory can be written.
  A second call for the same process id returns the same id and changes nothing. In a
  directory whose binding files are those the session manager wrote (\<open>bindings_wf\<close>, which
  every call preserves), calls for two distinct process ids return two distinct ids, whatever
  the times of the calls and the in-memory state of the two session managers.
\<close>

theorem get_current_session_spec:
  shows "(dir_writable (data sm) \<longrightarrow> (\<exists>r. get_current_session p t1 sm = Inr r))
       \<and> (get_current_session p t1 sm = Inr (s, x) \<longrightarrow>
            get_current_session p t2 x = Inr (s, x))
       \<and> (bindings_wf (data sm) \<and> get_current_session p t1 sm = Inr (s, x) \<longrightarrow>
            bindings_wf (data x))
       \<and> (bindings_wf (data sm) \<and> bindings_wf (data sm') \<and> p \<noteq> q
            \<and> get_current_session p t1 sm = Inr (s, x)
            \<and> get_current_session q t3 sm' = Inr (s', x') \<longrightarrow> s \<noteq> s')"
  using get_current_total get_current_again get_current_wf get_current_prefix
    process_prefix_inj
  by (metis (no_types, lifting))

theorem get_current_session_spec_witness:
  "dir_writable (data sm0) \<and> bindings_wf (data sm0)
   \<and> (\<exists>x x'. get_current_session 1 100 sm0 = Inr (''session_1_100'', x)
           \<and> get_current_session 1 250 x = Inr (''session_1_100'', x)
           \<and> bindings_wf (data x)
           \<and> get_current_session 2 100 x = Inr (''session_2_100'', x')
           \<and> ''session_1_100'' \<noteq> ''session_2_100'')"
proof -
  have w: "dir_writable (data sm0)" by (simp add: sm0_def dir0_def)
  have wf: "bindings_wf (data sm0)" by (simp add: bindings_wf_def sm0_def dir0_def)
  have i100: "str_int (py_int 100) = ''100''"
    by (simp add: str_int_def py_int_def str_nat.simps digit_char_def)
  have n1: "str_nat (Suc 0) = ''1''" and n2: "str_nat 2 = ''2''"
    by (simp_all add: str_nat.simps digit_char_def)
  obtain x where r1: "get_current_session 1 100 sm0 = Inr (''session_1_100'', x)"
    by (simp add: get_current_session_def create_unique_session_for_process_def
        process_session_id_def i100 n1 sm0_def dir0_def Let_def)
  have wx: "dir_writable (data x)" and nx: "process_session_files (data x) 2 = None"
    using r1
    by (auto simp: get_current_session_def create_unique_session_for_process_def
        save_session_info_def sm0_def dir0_def Let_def)
  obtain x' where r2: "get_current_session 2 100 x = Inr (''session_2_100'', x')"
    using wx nx
    by (simp add: get_current_session_def create_unique_session_for_process_def
        process_session_id_def i100 n2 Let_def)
  note spec = get_current_session_spec
    [of sm0 1 100 "''session_1_100''" x 250 x 2 100 "''session_2_100''" x']
  from spec w wf r1 r2 show ?thesis by simp
qed

lemma set_list_sessions: "set (list_sessions d) = fst ` set (session_files d)"
  by (simp add: list_sessions_def)

lemma length_list_sessions: "length (list_sessions d) = length (session_files d)"
  by (simp add: list_sessions_def)




text \<open>
  When the switch does change the working directory, the relative path of the
  current-session file no longer leads to the directory the sessions were listed in:
  with no directory \<^verbatim>\<open>data\<close> under the session's directory the call raises instead of
  returning.
\<close>

lemma switch_session_after_chdir:
  "''session_1'' \<in> set (list_sessions (data sm_away))
   \<and> switch_session (\<lambda>p. True) (\<lambda>p. True) 50 ''session_1'' sm_away
       = Inl (FileNotFoundError, ''No such file or directory'')"
  by (simp add: switch_session_def get_session_details_def save_session_info_def
      set_list_sessions sm_away_def sm_one_def sm0_def dir0_def meta1_def Let_def)

text \<open>
  C8. \<^verbatim>\<open>create_new_session\<close> numbers the new session by the count of history files.
  When the directory holds \<^verbatim>\<open>session_2.json\<close> only, the count is 1 and the new id is
  \<^verbatim>\<open>session_2\<close> again: the id is not new, and the history of the existing session is
  overwritten with the empty list.
\<close>

theorem create_new_session_reuses_id:
  "list_sessions (data sm_gap) = [''session_2'']
   \<and> load_history ''session_2'' (data sm_gap) = [''ls'']
   \<and> (case create_new_session 500 sm_gap of
        Inl e \<Rightarrow> False
      | Inr (sid, sm') \<Rightarrow> sid = ''session_2'' \<and> load_history ''session_2'' (data sm') = [])"
  by (simp add: create_new_session_def list_sessions_def load_history_def save_session_info_def
        sm_gap_def sm0_def dir0_def Let_def str_nat.simps digit_char_def)

text \<open>
  The first half of C8 holds: the id is \<^verbatim>\<open>session_N\<close> with N the count of sessions plus
  one, its history is empty, and it becomes the current session.
\<close>

lemma create_new_session_allocates:
  assumes "dir_writable (data sm)"
  shows "\<exists>sm'. create_new_session now sm =
            Inr (''session_'' @ str_nat (length (list_sessions (data sm)) + 1), sm')
          \<and> load_history (''session_'' @ str_nat (length (list_sessions (data sm)) + 1))
              (data sm') = []
          \<and> current_session_file (data sm') =
              Some (''session_'' @ str_nat (length (list_sessions (data sm)) + 1))"
  using assms
  by (simp add: create_new_session_def load_history_def save_session_info_def Let_def
      update_conv')

section \<open>Properties of the input classifier\<close>

lemma extract_folder_name_test: "extract_folder_name ''create folder test'' = Some ''test''"
  by code_simp

lemma mkdir_test:
  "fst (run_command env0 ''mkdir'' [''test''] ''A'' world0)
     = Inr (''Directory '' @ quoted ''test'' @ '' created'')"
  by (simp add: run_command_def dispatch_def cmd_mkdir_def io_try_def io_return_def
      io_bind_def check_lock_io_def acquire_lock_io_def release_lock_io_def fs_do_def
      truthy_def check_lock_def load_locks_def observe_def acquired_def acquire_lock_def
      held_by_other_def purge_expired_def after_check_def after_acquire_def
      after_release_def env0_def world0_def Let_def)

text \<open>
  C6. In command mode (the mode a processor starts in) \<^verbatim>\<open>process_input\<close> sends
  \<^verbatim>\<open>ls\<close> to the direct-command handler, \<^verbatim>\<open>create folder test\<close> to the folder fast path,
  whose handler extracts the name \<^verbatim>\<open>test\<close> and runs \<^verbatim>\<open>mkdir\<close> with it,
  \<^verbatim>\<open>what is my cpu usage?\<close> to the system-query handler and \<^verbatim>\<open>hello\<close> to the chat
  handler, each by the label that \<^verbatim>\<open>_classify_input\<close> gives the text; the empty input is
  answered with the type \<^verbatim>\<open>empty\<close> in either mode.
\<close>

theorem classify_input_examples:
  "classify_input ''ls'' = Direct_command
   \<and> process_input_route False ''ls'' = Classified Direct_command
   \<and> classify_input ''create folder test'' = Simple_folder_creation
   \<and> process_input_route False ''create folder test'' = Classified Simple_folder_creation
   \<and> extract_folder_name ''create folder test'' = Some ''test''
   \<and> fst (handle_simple_folder_creation env0 ''create folder test'' ''A'' world0)
       = Inr \<lparr>result_type = ''simple_folder_creation'',
              result = ''Directory '' @ quoted ''test'' @ '' created'',
              message = ''Created folder: test'', folder_name = Some ''test''\<rparr>
   \<and> classify_input ''what is my cpu usage?'' = System_query
   \<and> process_input_route False ''what is my cpu usage?'' = Classified System_query
   \<and> classify_input ''hello'' = Chat
   \<and> process_input_route False ''hello'' = Classified Chat
   \<and> process_input_route False '''' = Classified Empty
   \<and> process_input_route True '''' = Classified Empty"
proof -
  have labels:
    "classify_input ''ls'' = Direct_command
     \<and> process_input_route False ''ls'' = Classified Direct_command
     \<and> classify_input ''create folder test'' = Simple_folder_creation
     \<and> process_input_route False ''create folder test'' = Classified Simple_folder_creation
     \<and> classify_input ''what is my cpu usage?'' = System_query
     \<and> process_input_route False ''what is my cpu usage?'' = Classified System_query
     \<and> classify_input ''hello'' = Chat
     \<and> process_input_route False ''hello'' = Classified Chat
     \<and> process_input_route False '''' = Classified Empty
     \<and> process_input_route True '''' = Classified Empty"
    by code_simp
  have handler:
    "fst (handle_simple_folder_creation env0 ''create folder test'' ''A'' world0)
       = Inr \<lparr>result_type = ''simple_folder_creation'',
              result = ''Directory '' @ quoted ''test'' @ '' created'',
              message = ''Created folder: test'', folder_name = Some ''test''\<rparr>"
    using mkdir_test
    by (cases "run_command env0 ''mkdir'' [''test''] ''A'' world0")
      (simp add: handle_simple_folder_creation_def extract_folder_name_test io_try_def
        io_bind_def io_return_def)
  from labels handler extract_folder_name_test show ?thesis by simp
qed

text \<open>
  The label \<^verbatim>\<open>empty\<close> comes from \<^verbatim>\<open>process_input\<close>: \<^verbatim>\<open>_classify_input\<close> itself, which is
  never called on the empty text, would answer \<^verbatim>\<open>unknown\<close>.
\<close>

lemma classify_input_empty: "classify_input '''' = Unknown"
  by code_simp

section \<open>Properties of the command executor\<close>

lemma io_bind_check [simp]:
  "io_bind (check_lock_io env sid p) f w = f (check_lock sid p (observe env w)) (after_check env w)"
  by (simp add: io_bind_def check_lock_io_def)

lemma io_bind_acquire [simp]:
  "io_bind (acquire_lock_io env sid p) f w = f (acquired env sid p w) (after_acquire env sid p w)"
  by (simp add: io_bind_def acquire_lock_io_def)

lemma io_bind_release [simp]:
  "io_bind (release_lock_io env sid p) f w = f () (after_release env sid p w)"
  by (simp add: io_bind_def release_lock_io_def)

lemma io_bind_return [simp]: "io_bind (io_return x) f w = f x w"
  by (simp add: io_bind_def io_return_def)

lemma io_bind_fs_do [simp]:
  "io_bind (fs_do operation outcome) f w =
     (case outcome of
        None \<Rightarrow> f () (w\<lparr>fs_log := fs_log w @ [operation]\<rparr>)
      | Some e \<Rightarrow> (Inl e, w\<lparr>fs_log := fs_log w @ [operation]\<rparr>))"
  by (simp add: io_bind_def fs_do_def split: option.splits)

lemma io_bind_assoc [simp]:
  "io_bind (io_bind m f) g = io_bind m (\<lambda>x. io_bind (f x) g)"
  by (rule ext) (simp add: io_bind_def split: prod.splits sum.splits)

lemma select_paths_explicit [simp]:
  "select_paths env title verb (source # dest # rest) = io_return (Inr (source, dest))"
  by (simp add: select_paths_def)



lemma writable_observe [simp]: "writable (observe env w) = writable (lock_store w)"
  by (simp add: observe_def)



lemma lock_store_after_check [simp]: "lock_store (after_check env w) = observe env w"
  by (simp add: after_check_def)

lemma fs_log_after [simp]:
  "fs_log (after_check env w) = fs_log w"
  "fs_log (after_acquire env sid p w) = fs_log w"
  "fs_log (after_release env sid p w) = fs_log w"
  by (simp_all add: after_check_def after_acquire_def after_release_def)

lemma tick_after [simp]:
  "tick (after_check env w) = Suc (tick w)"
  "tick (after_acquire env sid p w) = Suc (tick w)"
  "tick (after_release env sid p w) = Suc (tick w)"
  by (simp_all add: after_check_def after_acquire_def after_release_def)

lemma writable_acquire_lock [simp]:
  "writable (snd (acquire_lock sid p t d)) = writable d"
  by (simp add: acquire_lock_def save_locks_def Let_def)

lemma writable_release_lock [simp]: "writable (release_lock sid p d) = writable d"
  by (simp add: release_lock_def save_locks_def Let_def)

lemma writable_after [simp]:
  "writable (lock_store (after_check env w)) = writable (lock_store w)"
  "writable (lock_store (after_acquire env sid p w)) = writable (lock_store w)"
  "writable (lock_store (after_release env sid p w)) = writable (lock_store w)"
  by (simp_all add: after_acquire_def after_release_def)











lemma busy_neq [simp]:
  "source_busy \<noteq> destination_busy"
  "transfer_message env cmd source dest \<noteq> source_busy"
  "transfer_message env cmd source dest \<noteq> destination_busy"
  "error_text e \<noteq> source_busy" "error_text e \<noteq> destination_busy"
  by (simp_all add: source_busy_def destination_busy_def transfer_message_def error_text_def)








text \<open>
  C10, as the code has it. For every command name, argument list, session id, state and
  behaviour of the environment, \<^verbatim>\<open>run_command\<close> returns a text or lets through an
  exception that does not derive from \<^verbatim>\<open>Exception\<close> (\<^verbatim>\<open>KeyboardInterrupt\<close>,
  \<^verbatim>\<open>SystemExit\<close>): the handler \<^verbatim>\<open>except Exception\<close> around the dispatch turns every other
  exception into an \<^verbatim>\<open>Error: ...\<close> text.
\<close>

theorem run_command_no_Exception_escapes:
  "(\<exists>out. fst (run_command env cmd args sid w) = Inr out)
   \<or> (\<exists>e. fst (run_command env cmd args sid w) = Inl e \<and> \<not> is_Exception e)"
  by (simp add: run_command_def io_try_def io_return_def split: prod.splits sum.splits)

text \<open>
  C10 as stated fails: a \<^verbatim>\<open>KeyboardInterrupt\<close> raised while \<^verbatim>\<open>cpu\<close> samples the
  processor passes every handler of \<^verbatim>\<open>run_command\<close> and reaches the caller (the main
  loop catches it there).
\<close>

theorem run_command_interrupt_propagates:
  "run_command env_interrupt ''cpu'' [] ''default'' world0
     = (Inl (KeyboardInterrupt, []), world0)
   \<and> \<not> (\<exists>out. fst (run_command env_interrupt ''cpu'' [] ''default'' world0) = Inr out)"
  by (simp add: run_command_def dispatch_def cmd_cpu_def io_try_def io_bind_def io_of_def
      is_Exception_def env_interrupt_def env0_def)

text \<open>Two calls in the quiet environment.\<close>

lemma run_command_echo:
  "run_command env0 ''echo'' [''a'', ''b''] ''default'' world0 = (Inr ''a b'', world0)"
  by (simp add: run_command_def dispatch_def cmd_echo_def io_try_def io_return_def)


end
